theory Spec2Isabelle
  imports Main
begin

section \<open>Strings and the path pattern of the reference rewriter\<close>

text \<open>
  A JavaScript string is a sequence of UTF-16 code units; it is modelled as a
  \<open>string\<close>, each \<open>char\<close> standing for one code unit (those below 256).
  The pattern built in \<open>updateReferences\<close> is
  \<^verbatim>\<open>(?<![\w\-.])(?<![\w\-.]\/)\<close> followed by \<open>escapeRegExp(oldRel)\<close>, with the flag \<open>g\<close>.
\<close>

type_synonym path = string

definition backslash :: char where
  "backslash = CHR 0x5C"

text \<open>The class \<^verbatim>\<open>\w\<close>: ASCII letters, digits and the underscore.\<close>

definition is_word_char :: "char \<Rightarrow> bool" where
  "is_word_char c =
     (let n = (of_char c :: nat)
      in (48 \<le> n \<and> n \<le> 57) \<or> (65 \<le> n \<and> n \<le> 90) \<or> n = 95 \<or> (97 \<le> n \<and> n \<le> 122))"

text \<open>The class \<^verbatim>\<open>[\w\-.]\<close> of both lookbehinds.\<close>

definition is_name_char :: "char \<Rightarrow> bool" where
  "is_name_char c = (is_word_char c \<or> c = CHR ''-'' \<or> c = CHR ''.'')"

text \<open>The characters of the class \<^verbatim>\<open>[.*+?^${}()|[\]\\]\<close> in \<open>escapeRegExp\<close>.\<close>

definition regex_special :: "char \<Rightarrow> bool" where
  "regex_special c = (c \<in> set ''.*+?^${}()|[]'' \<or> c = backslash)"

text \<open>\<open>string.replace(/[.*+?^${}()|[\]\\]/g, "\\$&")\<close>: a backslash before each such character.\<close>

fun escapeRegExp :: "string \<Rightarrow> string" where
  "escapeRegExp [] = []"
| "escapeRegExp (c # cs) =
     (if regex_special c then backslash # c # escapeRegExp cs else c # escapeRegExp cs)"

text \<open>
  What \<open>new RegExp\<close> makes of the escaped text: an escaped syntax character and any
  character that is no syntax character match themselves. Anything else is no pattern of
  this shape (\<open>None\<close>; the constructor would throw or the pattern would not be a literal).
\<close>

fun regex_literal :: "string \<Rightarrow> string option" where
  "regex_literal [] = Some []"
| "regex_literal [c] = (if regex_special c then None else Some [c])"
| "regex_literal (c # d # ds) =
     (if c = backslash then
        (if regex_special d then map_option (Cons d) (regex_literal ds) else None)
      else if regex_special c then None
      else map_option (Cons c) (regex_literal (d # ds)))"

text \<open>
  The two negative lookbehinds, on the text before a position, nearest character first:
  the position is not preceded by a character of \<^verbatim>\<open>[\w\-.]\<close>, and not by a slash that
  such a character precedes.
\<close>

fun lookbehind_ok :: "string \<Rightarrow> bool" where
  "lookbehind_ok [] = True"
| "lookbehind_ok [b] = (\<not> is_name_char b)"
| "lookbehind_ok (b # b2 # bs) = (\<not> is_name_char b \<and> \<not> (b = CHR ''/'' \<and> is_name_char b2))"

fun starts_with :: "string \<Rightarrow> string \<Rightarrow> bool" where
  "starts_with [] ts = True"
| "starts_with (p # ps) [] = False"
| "starts_with (p # ps) (t # ts) = (p = t \<and> starts_with ps ts)"

text \<open>The pattern matches the text \<open>s\<close> at index \<open>i\<close>.\<close>

definition matches_at :: "string \<Rightarrow> string \<Rightarrow> nat \<Rightarrow> bool" where
  "matches_at old s i =
     (i \<le> length s \<and> lookbehind_ok (rev (take i s)) \<and> starts_with old (drop i s))"

text \<open>
  The matches a global pattern yields, from \<open>lastIndex\<close> on: the leftmost match at or
  after it, then the search goes on behind that match (one further when it was empty).
\<close>

function find_matches :: "string \<Rightarrow> string \<Rightarrow> nat \<Rightarrow> nat list" where
  "find_matches old s lastIndex =
     (if length s < lastIndex then []
      else if matches_at old s lastIndex then
        lastIndex # find_matches old s (if old = [] then lastIndex + 1 else lastIndex + length old)
      else find_matches old s (lastIndex + 1))"
  by pat_completeness auto
termination
  apply (relation "measure (\<lambda>(old, s, i). Suc (length s) - i)")
    apply (auto simp: not_less)
  apply (metis Suc_diff_le diff_less_mono2 le_imp_less_Suc length_greater_0_conv
      less_add_same_cancel1 zero_less_Suc)
  done

text \<open>\<open>regex.test(content)\<close> on the fresh pattern: is there a match at all.\<close>

definition regex_test :: "string \<Rightarrow> string \<Rightarrow> bool" where
  "regex_test old s = (find_matches old s 0 \<noteq> [])"

text \<open>
  The replacement text of one match (\<open>GetSubstitution\<close>; the pattern has no capture
  group): \<^verbatim>\<open>$$\<close> is a dollar, \<^verbatim>\<open>$&\<close> the match, \<^verbatim>\<open>$`\<close> the text before it,
  \<^verbatim>\<open>$'\<close> the text behind it; every other character stands for itself.
\<close>

fun get_substitution :: "string \<Rightarrow> string \<Rightarrow> string \<Rightarrow> string \<Rightarrow> string" where
  "get_substitution m pre post [] = []"
| "get_substitution m pre post [c] = [c]"
| "get_substitution m pre post (c # d # ds) =
     (if c = CHR ''$'' \<and> d = CHR ''$'' then CHR ''$'' # get_substitution m pre post ds
      else if c = CHR ''$'' \<and> d = CHR ''&'' then m @ get_substitution m pre post ds
      else if c = CHR ''$'' \<and> d = CHR 0x60 then pre @ get_substitution m pre post ds
      else if c = CHR ''$'' \<and> d = CHR 0x27 then post @ get_substitution m pre post ds
      else c # get_substitution m pre post (d # ds))"

text \<open>
  The result of \<open>content.replace(regex, newRel)\<close>: the text between the matches is kept,
  each match gives way to its replacement text. \<open>pos\<close> is the end of the match before.
\<close>

fun splice :: "string \<Rightarrow> string \<Rightarrow> string \<Rightarrow> nat \<Rightarrow> nat list \<Rightarrow> string" where
  "splice old new s pos [] = drop pos s"
| "splice old new s pos (p # ps) =
     take (p - pos) (drop pos s)
     @ get_substitution old (take p s) (drop (p + length old) s) new
     @ splice old new s (p + length old) ps"

definition replace_all :: "string \<Rightarrow> string \<Rightarrow> string \<Rightarrow> string" where
  "replace_all old new s = splice old new s 0 (find_matches old s 0)"


text \<open>A rule of the replacement table: \<open>{ oldRel, newRel }\<close>.\<close>

record replacement =
  oldRel :: string
  newRel :: string

text \<open>
  The inner loop of \<open>updateReferences\<close> over one file's content: each rule in turn, on the
  content as the rules before left it. \<open>None\<close>: the pattern was refused, the exception
  ends the work on this file.
\<close>

fun apply_rules :: "replacement list \<Rightarrow> string \<Rightarrow> bool \<Rightarrow> (string \<times> bool) option" where
  "apply_rules [] content hasChanges = Some (content, hasChanges)"
| "apply_rules (r # rs) content hasChanges =
     (case regex_literal (escapeRegExp (oldRel r)) of
        None \<Rightarrow> None
      | Some old \<Rightarrow>
          if regex_test old content
          then apply_rules rs (replace_all old (newRel r) content) True
          else apply_rules rs content hasChanges)"

text \<open>
  \<open>replacements.sort((a, b) => b.oldRel.length - a.oldRel.length)\<close>: by the length of the old
  path, longest first; the sort is stable.
\<close>

definition sort_replacements :: "replacement list \<Rightarrow> replacement list" where
  "sort_replacements rs = sort_key (\<lambda>r. - int (length (oldRel r))) rs"

section \<open>The file system and the collaborators of the run\<close>

text \<open>
  A file system lists the nodes by their absolute paths, one entry for each path, in the
  order in which the paths came to be. The functions of
  \<open>node:path\<close>, \<open>fast-glob\<close>, \<open>sharp\<close>, \<open>prompts\<close> and the JSON reader and writer are not
  code of the program: they are the fields of an environment \<open>E\<close>, and every theorem holds
  whatever they compute. \<open>io_fault\<close> says which operations the system refuses (permissions,
  a full disk), so that every operation that can throw has a failing branch.
\<close>

datatype node = File string | Dir

type_synonym filesystem = "(path \<times> node) list"

type_synonym lock = "(path \<times> path) list"

datatype format = PNG | JPEG | JPG | WEBP

datatype file_size = Small | Smallest

datatype io_op = ReadOp path | WriteOp path | MoveOp path path

text \<open>What \<open>readJSON\<close> finds in the lock file: no JSON, JSON without \<open>conversions\<close>, or the
  mapping, one pair for each key in the order of \<open>Object.entries\<close>.\<close>

datatype lock_file = Unreadable | Malformed | LockData lock

text \<open>The configuration as \<open>readJSON\<close> returns it: a property is there or not.\<close>

record raw_config =
  raw_input :: "string option"
  raw_output :: "string option"
  raw_blacklists :: "string list option"
  raw_file_size :: "string option"
  raw_preferred_type :: "string option"
  raw_working_directory :: "string option"

text \<open>The answers of \<open>prompts\<close>; an answer is missing when the user cancelled.\<close>

record response =
  resp_format :: "format option"
  resp_quality :: "file_size option"
  resp_working_directory :: "string option"

record env =
  cwd :: path
  resolve :: "path list \<Rightarrow> path"
  relative :: "path \<Rightarrow> path \<Rightarrow> path"
  path_join :: "path list \<Rightarrow> path"
  dirname :: "path \<Rightarrow> path"
  basename :: "path \<Rightarrow> string \<Rightarrow> string"
  extname :: "path \<Rightarrow> string"
  glob :: "string \<Rightarrow> string list \<Rightarrow> path \<Rightarrow> bool \<Rightarrow> filesystem \<Rightarrow> path list"
  sharp :: "format \<Rightarrow> nat \<Rightarrow> string \<Rightarrow> string option"
  io_fault :: "filesystem \<Rightarrow> io_op \<Rightarrow> bool"
  parse_config :: "string \<Rightarrow> raw_config option"
  parse_lock :: "string \<Rightarrow> lock_file"
  print_lock :: "lock \<Rightarrow> string"
  prompts :: response

text \<open>The node a path given to the file system names: relative paths start at \<open>cwd\<close>.\<close>

definition fs_key :: "env \<Rightarrow> path \<Rightarrow> path" where
  "fs_key E p = resolve E [p]"

definition node_at :: "filesystem \<Rightarrow> path \<Rightarrow> node option" where
  "node_at fs k = map_of fs k"

text \<open>A node written at a path: in the place of the entry for the path, else last.\<close>

fun fs_put :: "path \<Rightarrow> node \<Rightarrow> filesystem \<Rightarrow> filesystem" where
  "fs_put k n [] = [(k, n)]"
| "fs_put k n (e # es) = (if fst e = k then (k, n) # es else e # fs_put k n es)"

definition fs_del :: "path \<Rightarrow> filesystem \<Rightarrow> filesystem" where
  "fs_del k fs = filter (\<lambda>e. fst e \<noteq> k) fs"

definition pathExists :: "env \<Rightarrow> filesystem \<Rightarrow> path \<Rightarrow> bool" where
  "pathExists E fs p = (node_at fs (fs_key E p) \<noteq> None)"

definition readFile :: "env \<Rightarrow> filesystem \<Rightarrow> path \<Rightarrow> string option" where
  "readFile E fs p =
     (case node_at fs (fs_key E p) of
        Some (File s) \<Rightarrow> if io_fault E fs (ReadOp p) then None else Some s
      | _ \<Rightarrow> None)"

definition writeFile :: "env \<Rightarrow> filesystem \<Rightarrow> path \<Rightarrow> string \<Rightarrow> filesystem option" where
  "writeFile E fs p s =
     (if io_fault E fs (WriteOp p) \<or> node_at fs (fs_key E p) = Some Dir then None
      else Some (fs_put (fs_key E p) (File s) fs))"

text \<open>The directories above a path, nearest first: \<open>dirname\<close> until it changes nothing.\<close>

fun ancestors_upto :: "env \<Rightarrow> nat \<Rightarrow> path \<Rightarrow> path list" where
  "ancestors_upto E 0 p = []"
| "ancestors_upto E (Suc n) p =
     (let d = dirname E p in if d = p then [] else d # ancestors_upto E n d)"

definition ancestors :: "env \<Rightarrow> path \<Rightarrow> path list" where
  "ancestors E p = ancestors_upto E (length p) p"

definition is_file :: "node option \<Rightarrow> bool" where
  "is_file n = (case n of Some (File s) \<Rightarrow> True | _ \<Rightarrow> False)"

text \<open>\<open>fs.move(src, dest, { overwrite: true })\<close> of a regular file: the directories above
  \<open>dest\<close> are made, a file at \<open>dest\<close> gives way, the file changes its place. It throws when
  \<open>src\<close> is no file, when both name the same node, when \<open>dest\<close> is a directory (a directory
  is not overwritten with a file), when a directory above \<open>dest\<close> cannot be made, or when
  the system refuses. An operation that throws leaves the file system as it was: the model
  does not follow half-done operations.\<close>

definition mkdirs :: "env \<Rightarrow> filesystem \<Rightarrow> path \<Rightarrow> filesystem option" where
  "mkdirs E fs k =
     (if list_ex (\<lambda>d. is_file (node_at fs d)) (ancestors E k) then None
      else Some (fold (\<lambda>d fs'. if node_at fs' d = None then fs_put d Dir fs' else fs')
                   (rev (ancestors E k)) fs))"

definition move :: "env \<Rightarrow> filesystem \<Rightarrow> path \<Rightarrow> path \<Rightarrow> filesystem option" where
  "move E fs src dest =
     (case node_at fs (fs_key E src) of
        Some (File b) \<Rightarrow>
          if fs_key E src = fs_key E dest \<or> node_at fs (fs_key E dest) = Some Dir
             \<or> io_fault E fs (MoveOp src dest) then None
          else (case mkdirs E fs (fs_key E dest) of
                  None \<Rightarrow> None
                | Some fs1 \<Rightarrow>
                    Some (fs_del (fs_key E src) (fs_put (fs_key E dest) (File b) fs1)))
      | _ \<Rightarrow> None)"

text \<open>\<open>sharp(src).png|jpeg|webp({ quality }).toFile(dest)\<close>: \<open>jpeg\<close> and \<open>jpg\<close> share the
  JPEG encoder.\<close>

definition encoder :: "format \<Rightarrow> format" where
  "encoder f = (case f of JPG \<Rightarrow> JPEG | _ \<Rightarrow> f)"

definition sharp_toFile ::
  "env \<Rightarrow> format \<Rightarrow> nat \<Rightarrow> filesystem \<Rightarrow> path \<Rightarrow> path \<Rightarrow> filesystem option" where
  "sharp_toFile E f quality fs src dest =
     (case node_at fs (fs_key E src) of
        Some (File b) \<Rightarrow>
          (case sharp E (encoder f) quality b of
             None \<Rightarrow> None
           | Some out \<Rightarrow> writeFile E fs dest out)
      | _ \<Rightarrow> None)"


section \<open>Lock store, configuration and \<open>.gitignore\<close>\<close>

definition CONFIG_FILE_NAME :: string where
  "CONFIG_FILE_NAME = ''rlcp.config.json''"

definition LOCK_FILE_NAME :: string where
  "LOCK_FILE_NAME = ''rlcp.lock''"

text \<open>\<open>lockData.conversions[k] = v\<close>: a known key keeps its place, a new one goes last.\<close>

fun lock_set :: "path \<Rightarrow> path \<Rightarrow> lock \<Rightarrow> lock" where
  "lock_set k v [] = [(k, v)]"
| "lock_set k v (e # es) = (if fst e = k then (k, v) # es else e # lock_set k v es)"

text \<open>\<open>loadLockFile\<close>: the empty mapping when the file is absent or cannot be read or parsed.
  \<open>None\<close> is a parsed file without \<open>conversions\<close>, which \<open>main\<close> cannot use.\<close>

definition loadLockFile :: "env \<Rightarrow> filesystem \<Rightarrow> lock option" where
  "loadLockFile E fs =
     (let lockPath = path_join E [cwd E, LOCK_FILE_NAME] in
      if pathExists E fs lockPath then
        (case readFile E fs lockPath of
           None \<Rightarrow> Some []
         | Some s \<Rightarrow>
             (case parse_lock E s of
                Unreadable \<Rightarrow> Some []
              | Malformed \<Rightarrow> None
              | LockData l \<Rightarrow> Some l))
      else Some [])"

text \<open>\<open>saveLockFile\<close>: a failed write is logged, nothing else.\<close>

definition saveLockFile :: "env \<Rightarrow> filesystem \<Rightarrow> lock \<Rightarrow> filesystem" where
  "saveLockFile E fs l =
     (let lockPath = path_join E [cwd E, LOCK_FILE_NAME] in
      case writeFile E fs lockPath (print_lock E l) of
        None \<Rightarrow> fs
      | Some fs' \<Rightarrow> fs')"

datatype setup_error =
    ConfigNotFound
  | ConfigUnreadable
  | MissingInputOutput
  | InvalidFileSize string
  | InvalidPreferredType string
  | InputDirMissing string

record config =
  c_input :: string
  c_output :: string
  c_blacklists :: "string list option"
  c_file_size :: "file_size option"
  c_preferred_type :: "format option"
  c_working_directory :: "string option"

text \<open>A JavaScript string is truthy when it is there and not empty.\<close>

definition truthy :: "string option \<Rightarrow> bool" where
  "truthy v = (case v of None \<Rightarrow> False | Some s \<Rightarrow> s \<noteq> [])"

definition read_file_size :: "string \<Rightarrow> file_size option" where
  "read_file_size s =
     (if s = ''small'' then Some Small else if s = ''smallest'' then Some Smallest else None)"

definition read_format :: "string \<Rightarrow> format option" where
  "read_format s =
     (if s = ''png'' then Some PNG else if s = ''jpeg'' then Some JPEG
      else if s = ''jpg'' then Some JPG else if s = ''webp'' then Some WEBP else None)"

text \<open>\<open>loadConfig\<close>: every \<open>process.exit(1)\<close> is an \<open>Inl\<close>. A property that is present,
  not empty and not among the accepted values is refused.\<close>

definition validate :: "raw_config \<Rightarrow> setup_error + config" where
  "validate c =
     (case (raw_input c, raw_output c) of
        (Some i, Some out) \<Rightarrow>
          if i = [] \<or> out = [] then Inl MissingInputOutput
          else if truthy (raw_file_size c)
                  \<and> Option.bind (raw_file_size c) read_file_size = None
            then Inl (InvalidFileSize (case raw_file_size c of Some v \<Rightarrow> v | None \<Rightarrow> []))
          else if truthy (raw_preferred_type c)
                  \<and> Option.bind (raw_preferred_type c) read_format = None
            then Inl (InvalidPreferredType (case raw_preferred_type c of Some v \<Rightarrow> v | None \<Rightarrow> []))
          else
            Inr \<lparr> c_input = i,
                  c_output = out,
                  c_blacklists = raw_blacklists c,
                  c_file_size = Option.bind (raw_file_size c) read_file_size,
                  c_preferred_type = Option.bind (raw_preferred_type c) read_format,
                  c_working_directory = raw_working_directory c \<rparr>
      | _ \<Rightarrow> Inl MissingInputOutput)"

definition loadConfig :: "env \<Rightarrow> filesystem \<Rightarrow> setup_error + config" where
  "loadConfig E fs =
     (let configPath = path_join E [cwd E, CONFIG_FILE_NAME] in
      if \<not> pathExists E fs configPath then Inl ConfigNotFound
      else
        (case readFile E fs configPath of
           None \<Rightarrow> Inl ConfigUnreadable
         | Some s \<Rightarrow>
             (case parse_config E s of
                None \<Rightarrow> Inl ConfigUnreadable
              | Some c \<Rightarrow> validate c)))"

text \<open>The white space and line ends that \<open>trim\<close> strips, among the code units below 256.\<close>

definition is_space :: "char \<Rightarrow> bool" where
  "is_space c = (of_char c \<in> {9, 10, 11, 12, 13, 32, 160 :: nat})"

definition trim :: "string \<Rightarrow> string" where
  "trim s = rev (dropWhile is_space (rev (dropWhile is_space s)))"

text \<open>\<open>content.split("\n")\<close>.\<close>

fun split_on :: "char \<Rightarrow> string \<Rightarrow> string list" where
  "split_on c [] = [[]]"
| "split_on c (x # xs) =
     (if x = c then [] # split_on c xs
      else (case split_on c xs of [] \<Rightarrow> [[x]] | l # ls \<Rightarrow> (x # l) # ls))"

definition newline :: char where
  "newline = CHR 0x0A"

definition ensureGitIgnore :: "env \<Rightarrow> filesystem \<Rightarrow> string \<Rightarrow> filesystem" where
  "ensureGitIgnore E fs outputDir =
     (let gitIgnorePath = path_join E [cwd E, ''.gitignore''] in
      case (if pathExists E fs gitIgnorePath then readFile E fs gitIgnorePath else Some []) of
        None \<Rightarrow> fs
      | Some content \<Rightarrow>
          (let lines = map trim (split_on newline content);
               isIgnored = list_ex (\<lambda>line. line = outputDir \<or> line = ''/'' @ outputDir
                                      \<or> line = outputDir @ ''/''
                                      \<or> line = ''/'' @ outputDir @ ''/'') lines
           in if \<not> isIgnored then
                (let newContent =
                       (if (content \<noteq> [] \<and> last content = newline) \<or> content = []
                        then content @ outputDir @ [newline]
                        else content @ [newline] @ outputDir @ [newline])
                 in case writeFile E fs gitIgnorePath newContent of
                      None \<Rightarrow> fs
                    | Some fs' \<Rightarrow> fs')
              else fs))"

section \<open>Reference rewriting over the working directory\<close>

text \<open>The body of the loop over the files: a read, pattern or write error skips the file.\<close>

definition update_file :: "env \<Rightarrow> replacement list \<Rightarrow> filesystem \<Rightarrow> path \<Rightarrow> filesystem" where
  "update_file E rules fs filePath =
     (case readFile E fs filePath of
        None \<Rightarrow> fs
      | Some content \<Rightarrow>
          (case apply_rules rules content False of
             None \<Rightarrow> fs
           | Some (content', hasChanges) \<Rightarrow>
               if hasChanges then
                 (case writeFile E fs filePath content' of None \<Rightarrow> fs | Some fs' \<Rightarrow> fs')
               else fs))"

definition updateReferences :: "env \<Rightarrow> filesystem \<Rightarrow> path \<Rightarrow> replacement list \<Rightarrow> filesystem" where
  "updateReferences E fs workingDir replacements =
     (let rules = sort_replacements replacements;
          files = glob E ''**/*.{html,js,jsx,ts,tsx,css,scss,json,md}''
                    [''**/node_modules/**'', ''.git/**'', ''**/dist/**'', ''**/build/**'']
                    workingDir True fs
      in fold (\<lambda>filePath fs'. update_file E rules fs' filePath) files fs)"


section \<open>The conversion loop of \<open>main\<close>\<close>

text \<open>The lines the loop prints, one for each candidate: its disposition.\<close>

datatype event =
    AlreadyConverted path
  | GeneratedFile path
  | BackupExists path
  | Processed path
  | Failed path

text \<open>What the loop changes: \<open>lockData.conversions\<close>, the array \<open>replacements\<close>, the file
  system, both counters and the console.\<close>

record run_state =
  lock :: lock
  replacements :: "replacement list"
  files :: filesystem
  successCount :: nat
  failCount :: nat
  console :: "event list"

definition format_ext :: "format \<Rightarrow> string" where
  "format_ext f = (case f of PNG \<Rightarrow> ''png'' | JPEG \<Rightarrow> ''jpeg'' | JPG \<Rightarrow> ''jpg'' | WEBP \<Rightarrow> ''webp'')"

text \<open>The helper \<open>addReplacement\<close>: the rule relative to the input directory, and the rule
  relative to the working directory of the process when the original is written otherwise.\<close>

definition addReplacement ::
  "env \<Rightarrow> path \<Rightarrow> replacement list \<Rightarrow> path \<Rightarrow> path \<Rightarrow> replacement list" where
  "addReplacement E inputDir repl originalFile targetFile =
     (let old_rel = relative E inputDir originalFile;
          new_rel = relative E (resolve E [cwd E, inputDir]) targetFile;
          repl1 = repl @ [\<lparr> oldRel = old_rel, newRel = new_rel \<rparr>]
      in if originalFile \<noteq> old_rel then
           repl1 @ [\<lparr> oldRel = originalFile, newRel = relative E (cwd E) targetFile \<rparr>]
         else repl1)"

text \<open>The paths the loop computes for a candidate.\<close>

definition absoluteFilePath :: "env \<Rightarrow> path \<Rightarrow> path" where
  "absoluteFilePath E file = resolve E [cwd E, file]"

definition originalFileDest :: "env \<Rightarrow> path \<Rightarrow> path \<Rightarrow> path \<Rightarrow> path" where
  "originalFileDest E inputDir outputDir file = path_join E [outputDir, relative E inputDir file]"

definition finalNewPath :: "env \<Rightarrow> format \<Rightarrow> path \<Rightarrow> path" where
  "finalNewPath E targetFormat file =
     resolve E [cwd E, dirname E file,
                basename E file (extname E file) @ ''.'' @ format_ext targetFormat]"

text \<open>The lock check: an entry for the candidate that is not empty and whose target is on
  disk gives the target's absolute path.\<close>

definition lockedTarget :: "env \<Rightarrow> run_state \<Rightarrow> path \<Rightarrow> path option" where
  "lockedTarget E st file =
     (case map_of (lock st) file of
        None \<Rightarrow> None
      | Some lockedTargetRel \<Rightarrow>
          if lockedTargetRel \<noteq> [] \<and> pathExists E (files st) (resolve E [cwd E, lockedTargetRel])
          then Some (resolve E [cwd E, lockedTargetRel])
          else None)"

definition failed :: "run_state \<Rightarrow> filesystem \<Rightarrow> path \<Rightarrow> run_state" where
  "failed st fs file =
     st\<lparr> files := fs, failCount := failCount st + 1, console := console st @ [Failed file] \<rparr>"

text \<open>The three steps of a conversion: encode beside the original, move the original to
  the backup, give the encoded file its final name. A step that throws ends in \<open>catch\<close>.\<close>

definition convert_file ::
  "env \<Rightarrow> path \<Rightarrow> path \<Rightarrow> format \<Rightarrow> nat \<Rightarrow> run_state \<Rightarrow> path \<Rightarrow> run_state" where
  "convert_file E inputDir outputDir targetFormat qualityValue st file =
     (case sharp_toFile E targetFormat qualityValue (files st)
             (absoluteFilePath E file) (absoluteFilePath E file @ ''.temp'') of
        None \<Rightarrow> failed st (files st) file
      | Some fs1 \<Rightarrow>
          (case move E fs1 (absoluteFilePath E file)
                  (originalFileDest E inputDir outputDir file) of
             None \<Rightarrow> failed st fs1 file
           | Some fs2 \<Rightarrow>
               (case move E fs2 (absoluteFilePath E file @ ''.temp'')
                       (finalNewPath E targetFormat file) of
                  None \<Rightarrow> failed st fs2 file
                | Some fs3 \<Rightarrow>
                    st\<lparr> replacements :=
                          addReplacement E inputDir (replacements st) file
                            (finalNewPath E targetFormat file),
                        lock := lock_set file
                          (relative E (cwd E) (finalNewPath E targetFormat file)) (lock st),
                        files := fs3,
                        successCount := successCount st + 1,
                        console := console st @ [Processed file] \<rparr>)))"

text \<open>The checks behind the lock check: generated file, backup and target on disk, else
  the conversion.\<close>

definition process_unlocked ::
  "env \<Rightarrow> path \<Rightarrow> path \<Rightarrow> format \<Rightarrow> nat \<Rightarrow> path list \<Rightarrow> run_state \<Rightarrow> path \<Rightarrow> run_state" where
  "process_unlocked E inputDir outputDir targetFormat qualityValue lockValues st file =
     (if file \<in> set lockValues then st\<lparr> console := console st @ [GeneratedFile file] \<rparr>
      else if pathExists E (files st) (originalFileDest E inputDir outputDir file)
              \<and> pathExists E (files st) (finalNewPath E targetFormat file)
      then
        st\<lparr> replacements :=
              addReplacement E inputDir (replacements st) file (finalNewPath E targetFormat file),
            lock := lock_set file (relative E (cwd E) (finalNewPath E targetFormat file)) (lock st),
            console := console st @ [BackupExists file] \<rparr>
      else convert_file E inputDir outputDir targetFormat qualityValue st file)"

text \<open>The body of the loop \<open>for (const file of files)\<close>, with its \<open>try\<close> and \<open>catch\<close>.\<close>

definition process_file ::
  "env \<Rightarrow> path \<Rightarrow> path \<Rightarrow> format \<Rightarrow> nat \<Rightarrow> path list \<Rightarrow> run_state \<Rightarrow> path \<Rightarrow> run_state" where
  "process_file E inputDir outputDir targetFormat qualityValue lockValues st file =
     (case lockedTarget E st file of
        Some lockedTargetAbs \<Rightarrow>
          st\<lparr> replacements := addReplacement E inputDir (replacements st) file lockedTargetAbs,
              console := console st @ [AlreadyConverted file] \<rparr>
      | None \<Rightarrow> process_unlocked E inputDir outputDir targetFormat qualityValue lockValues st file)"

fun process_files ::
  "env \<Rightarrow> path \<Rightarrow> path \<Rightarrow> format \<Rightarrow> nat \<Rightarrow> path list \<Rightarrow> run_state \<Rightarrow> path list \<Rightarrow> run_state" where
  "process_files E inputDir outputDir targetFormat qualityValue lockValues st [] = st"
| "process_files E inputDir outputDir targetFormat qualityValue lockValues st (file # rest) =
     process_files E inputDir outputDir targetFormat qualityValue lockValues
       (process_file E inputDir outputDir targetFormat qualityValue lockValues st file) rest"

text \<open>After the loop: \<open>replacements.length = 0\<close>, then one call of \<open>addReplacement\<close> for
  each entry of the lock, in the order of \<open>Object.entries\<close>.\<close>

definition rebuild_replacements :: "env \<Rightarrow> path \<Rightarrow> lock \<Rightarrow> replacement list" where
  "rebuild_replacements E inputDir l =
     fold (\<lambda>(originalRelPath, targetRelPath) repl.
             addReplacement E inputDir repl originalRelPath (resolve E [cwd E, targetRelPath]))
       l []"

section \<open>\<open>main\<close>\<close>

datatype outcome =
    SetupFailed setup_error
  | UnexpectedError
  | NoImages
  | Cancelled
  | Completed

text \<open>What a run leaves: how it ended, the file system, and the values of \<open>lockData\<close>,
  \<open>replacements\<close>, the counters and the console when it ended.\<close>

record report =
  r_outcome :: outcome
  r_files :: filesystem
  r_lock :: lock
  r_table :: "replacement list"
  r_succeeded :: nat
  r_failed :: nat
  r_console :: "event list"

definition stopped :: "outcome \<Rightarrow> filesystem \<Rightarrow> lock \<Rightarrow> report" where
  "stopped how fs l =
     \<lparr> r_outcome = how, r_files = fs, r_lock = l, r_table = [],
       r_succeeded = 0, r_failed = 0, r_console = [] \<rparr>"

text \<open>The settings of the run: from the configuration, else from the answers. \<open>None\<close> when
  a needed answer is missing (\<open>Operation cancelled\<close>).\<close>

definition settings :: "env \<Rightarrow> config \<Rightarrow> (format \<times> file_size \<times> string) option" where
  "settings E config =
     (let targetFormat = c_preferred_type config;
          qualitySetting = c_file_size config;
          workingDir = c_working_directory config;
          asked = (targetFormat = None \<or> qualitySetting = None \<or> \<not> truthy workingDir);
          response = prompts E
      in if asked \<and> ((targetFormat = None \<and> resp_format response = None)
                    \<or> (qualitySetting = None \<and> resp_quality response = None)
                    \<or> (\<not> truthy workingDir \<and> resp_working_directory response = None))
         then None
         else
           (case (if targetFormat = None then resp_format response else targetFormat,
                  if qualitySetting = None then resp_quality response else qualitySetting,
                  if \<not> truthy workingDir then resp_working_directory response else workingDir) of
              (Some f, Some q, Some w) \<Rightarrow> Some (f, q, w)
            | _ \<Rightarrow> None))"

definition qualityValue_of :: "file_size \<Rightarrow> nat" where
  "qualityValue_of qualitySetting = (if qualitySetting = Smallest then 60 else 80)"

text \<open>\<open>main\<close> from the loop on: the loop, the table rebuilt from the lock, the lock saved,
  the references rewritten.\<close>

definition convert_and_rewrite ::
  "env \<Rightarrow> path \<Rightarrow> path \<Rightarrow> lock \<Rightarrow> filesystem \<Rightarrow> path list \<Rightarrow> format \<Rightarrow> file_size \<Rightarrow> string
     \<Rightarrow> report" where
  "convert_and_rewrite E inputDir outputDir lock0 fs1 found targetFormat qualitySetting workingDir =
     (let st = process_files E inputDir outputDir targetFormat (qualityValue_of qualitySetting)
                 (map snd lock0)
                 \<lparr> lock = lock0, replacements = [], files = fs1,
                   successCount = 0, failCount = 0, console = [] \<rparr>
                 found;
          table = rebuild_replacements E inputDir (lock st);
          fs2 = saveLockFile E (files st) (lock st);
          fs3 = (if workingDir \<noteq> [] \<and> table \<noteq> [] \<and> pathExists E fs2 workingDir
                 then updateReferences E fs2 workingDir table
                 else fs2)
      in \<lparr> r_outcome = Completed, r_files = fs3, r_lock = lock st, r_table = table,
           r_succeeded = successCount st, r_failed = failCount st, r_console = console st \<rparr>)"

definition main :: "env \<Rightarrow> filesystem \<Rightarrow> report" where
  "main E fs =
     (case loadConfig E fs of
        Inl err \<Rightarrow> stopped (SetupFailed err) fs []
      | Inr config \<Rightarrow>
          (case loadLockFile E fs of
             None \<Rightarrow> stopped UnexpectedError fs []
           | Some lock0 \<Rightarrow>
               (let inputDir = c_input config;
                    outputDir = c_output config;
                    blacklists = (case c_blacklists config of None \<Rightarrow> [] | Some b \<Rightarrow> b);
                    fs1 = ensureGitIgnore E fs outputDir
                in if \<not> pathExists E fs1 inputDir
                   then stopped (SetupFailed (InputDirMissing inputDir)) fs1 lock0
                   else
                     (let found = glob E (path_join E [inputDir, ''**/*.{png,jpg,jpeg,webp}''])
                                    blacklists (cwd E) False fs1
                      in if found = [] then stopped NoImages fs1 lock0
                         else
                           (case settings E config of
                              None \<Rightarrow> stopped Cancelled fs1 lock0
                            | Some (targetFormat, qualitySetting, workingDir) \<Rightarrow>
                                convert_and_rewrite E inputDir outputDir lock0 fs1 found
                                  targetFormat qualitySetting workingDir)))))"

section \<open>A POSIX environment\<close>

text \<open>One environment to run the program in: \<open>node:path\<close> as on POSIX (for paths without a
  trailing slash), a reading of \<open>fast-glob\<close>, a toy codec and a line format for the lock.
  The general theorems below do not depend on it; their instances are computed in it.\<close>

fun join_with :: "string list \<Rightarrow> string" where
  "join_with [] = []"
| "join_with [a] = a"
| "join_with (a # b # r) = a @ ''/'' @ join_with (b # r)"

definition is_absolute :: "path \<Rightarrow> bool" where
  "is_absolute p = (case p of [] \<Rightarrow> False | c # cs \<Rightarrow> c = CHR ''/'')"

fun norm_segs :: "bool \<Rightarrow> string list \<Rightarrow> string list \<Rightarrow> string list" where
  "norm_segs ab acc [] = rev acc"
| "norm_segs ab acc (x # xs) =
     (if x = [] \<or> x = ''.'' then norm_segs ab acc xs
      else if x = ''..'' then
        (case acc of
           [] \<Rightarrow> if ab then norm_segs ab [] xs else norm_segs ab [''..''] xs
         | a # as \<Rightarrow> if a = ''..'' then norm_segs ab (''..'' # acc) xs else norm_segs ab as xs)
      else norm_segs ab (x # acc) xs)"

definition segments :: "path \<Rightarrow> string list" where
  "segments p = norm_segs (is_absolute p) [] (split_on (CHR ''/'') p)"

definition posix_normalize :: "path \<Rightarrow> path" where
  "posix_normalize p =
     (if is_absolute p then ''/'' @ join_with (segments p)
      else if segments p = [] then ''.'' else join_with (segments p))"

definition posix_resolve :: "path \<Rightarrow> path list \<Rightarrow> path" where
  "posix_resolve wd ps =
     posix_normalize
       (fold (\<lambda>p acc. if p = [] then acc else if is_absolute p then p else acc @ ''/'' @ p) ps wd)"

fun strip_common :: "string list \<Rightarrow> string list \<Rightarrow> string list \<times> string list" where
  "strip_common (x # xs) (y # ys) = (if x = y then strip_common xs ys else (x # xs, y # ys))"
| "strip_common xs ys = (xs, ys)"

definition posix_relative :: "path \<Rightarrow> path \<Rightarrow> path \<Rightarrow> path" where
  "posix_relative wd from to =
     (case strip_common (segments (posix_resolve wd [from])) (segments (posix_resolve wd [to])) of
        (up, down) \<Rightarrow> join_with (replicate (length up) ''..'' @ down))"

definition posix_join :: "path list \<Rightarrow> path" where
  "posix_join ps = posix_normalize (join_with (filter (\<lambda>p. p \<noteq> []) ps))"

definition strip_slashes :: "path \<Rightarrow> path" where
  "strip_slashes p = rev (dropWhile (\<lambda>c. c = CHR ''/'') (rev p))"

definition posix_dirname :: "path \<Rightarrow> path" where
  "posix_dirname p =
     (let d = strip_slashes (rev (dropWhile (\<lambda>c. c \<noteq> CHR ''/'') (rev (strip_slashes p))))
      in if d = [] then (if is_absolute p then ''/'' else ''.'') else d)"

definition ends_with :: "string \<Rightarrow> string \<Rightarrow> bool" where
  "ends_with suffix s = starts_with (rev suffix) (rev s)"

definition posix_basename :: "path \<Rightarrow> string \<Rightarrow> string" where
  "posix_basename p ext =
     (let b = rev (takeWhile (\<lambda>c. c \<noteq> CHR ''/'') (rev (strip_slashes p)))
      in if ext \<noteq> [] \<and> b \<noteq> ext \<and> ends_with ext b then take (length b - length ext) b else b)"

definition posix_extname :: "path \<Rightarrow> string" where
  "posix_extname p =
     (let b = posix_basename p [];
          e = rev (takeWhile (\<lambda>c. c \<noteq> CHR ''.'') (rev b))
      in if CHR ''.'' \<notin> set b \<or> length e + 1 = length b \<or> b = ''..'' then [] else CHR ''.'' # e)"


text \<open>A reading of \<open>fast-glob\<close>. A pattern is matched segment by segment: \<open>**\<close> is any
  number of directories, \<open>*\<close> any run of characters of a name, \<open>?\<close> one character, \<open>{a,b}\<close>
  one of the alternatives (braces are not nested here). A name that starts with a dot is
  matched only by a pattern that names the dot, unless \<open>dot\<close> is set, as it is for the
  patterns of \<open>ignore\<close>. The files of a directory come before those of the directories in
  it; at the same depth the order is that of the file system.\<close>

definition hidden :: "string \<Rightarrow> bool" where
  "hidden seg = starts_with ''.'' seg"

fun brace_alternatives :: "nat \<Rightarrow> string \<Rightarrow> string list" where
  "brace_alternatives 0 pat = [pat]"
| "brace_alternatives (Suc n) pat =
     (let pre = takeWhile (\<lambda>c. c \<noteq> CHR ''{'') pat;
          rest = dropWhile (\<lambda>c. c \<noteq> CHR ''{'') pat
      in if rest = [] then [pat]
         else
           (let body = takeWhile (\<lambda>c. c \<noteq> CHR ''}'') (tl rest);
                after = drop 1 (dropWhile (\<lambda>c. c \<noteq> CHR ''}'') (tl rest))
            in concat (map (\<lambda>a. map (\<lambda>t. pre @ a @ t) (brace_alternatives n after))
                         (split_on (CHR '','') body))))"

definition brace_expand :: "string \<Rightarrow> string list" where
  "brace_expand pat = brace_alternatives (length pat) pat"

function wild_match :: "string \<Rightarrow> string \<Rightarrow> bool" where
  "wild_match [] s = (s = [])"
| "wild_match (p # ps) [] = (p = CHR ''*'' \<and> wild_match ps [])"
| "wild_match (p # ps) (c # cs) =
     (if p = CHR ''*'' then wild_match ps (c # cs) \<or> wild_match (p # ps) cs
      else (p = CHR ''?'' \<or> p = c) \<and> wild_match ps cs)"
  by pat_completeness auto
termination
  by (relation "measure (\<lambda>(ps, s). length ps + length s)") auto

definition seg_match :: "bool \<Rightarrow> string \<Rightarrow> string \<Rightarrow> bool" where
  "seg_match dot pat seg =
     list_ex (\<lambda>alt. (dot \<or> \<not> hidden seg \<or> hidden alt) \<and> wild_match alt seg) (brace_expand pat)"

function glob_segs :: "bool \<Rightarrow> string list \<Rightarrow> string list \<Rightarrow> bool" where
  "glob_segs dot [] ss = (ss = [])"
| "glob_segs dot (p # ps) [] = (p = ''**'' \<and> glob_segs dot ps [])"
| "glob_segs dot (p # ps) (s # ss) =
     (if p = ''**'' then glob_segs dot ps (s # ss) \<or> ((dot \<or> \<not> hidden s) \<and> glob_segs dot (p # ps) ss)
      else seg_match dot p s \<and> glob_segs dot ps ss)"
  by pat_completeness auto
termination
  by (relation "measure (\<lambda>(dot, ps, ss). length ps + length ss)") auto

definition glob_match :: "bool \<Rightarrow> string \<Rightarrow> path \<Rightarrow> bool" where
  "glob_match dot pattern p =
     glob_segs dot (split_on (CHR ''/'') pattern) (split_on (CHR ''/'') p)"

definition posix_glob ::
  "path \<Rightarrow> string \<Rightarrow> string list \<Rightarrow> path \<Rightarrow> bool \<Rightarrow> filesystem \<Rightarrow> path list" where
  "posix_glob wd pattern ignore globCwd absolute fs =
     map (\<lambda>a. if absolute then a else posix_relative wd globCwd a)
       (sort_key (\<lambda>a. length (segments a))
          (filter (\<lambda>a. is_file (node_at fs a)
                     \<and> (let rel = posix_relative wd globCwd a
                        in \<not> starts_with ''..'' rel \<and> glob_match False pattern rel
                           \<and> \<not> list_ex (\<lambda>g. glob_match True g rel) ignore))
             (map fst fs)))"

text \<open>A codec that accepts what starts with \<open>IMG\<close>, and marks what it encoded.\<close>

definition demo_sharp :: "format \<Rightarrow> nat \<Rightarrow> string \<Rightarrow> string option" where
  "demo_sharp f quality b =
     (if starts_with ''IMG'' b then Some (''IMG['' @ format_ext f @ '']'' @ drop 3 b) else None)"

text \<open>The lock file as lines \<open>original TAB target\<close>.\<close>

definition tab :: char where
  "tab = CHR 0x09"

definition demo_print_lock :: "lock \<Rightarrow> string" where
  "demo_print_lock l = concat (map (\<lambda>(k, v). k @ [tab] @ v @ [newline]) l)"

definition demo_parse_lock :: "string \<Rightarrow> lock_file" where
  "demo_parse_lock s =
     (if s = ''{}'' then Malformed
      else if list_all (\<lambda>ln. length (split_on tab ln) = 2) (butlast (split_on newline s))
              \<and> last (split_on newline s) = []
      then LockData (map (\<lambda>ln. (hd (split_on tab ln), last (split_on tab ln)))
                       (butlast (split_on newline s)))
      else Unreadable)"

text \<open>The project of the examples: working directory \<open>/w\<close>, images in \<open>public\<close>, backups in
  \<open>temp_public\<close>, target format WebP.\<close>

definition demo_config :: raw_config where
  "demo_config =
     \<lparr> raw_input = Some ''public'', raw_output = Some ''temp_public'', raw_blacklists = None,
       raw_file_size = Some ''small'', raw_preferred_type = Some ''webp'',
       raw_working_directory = Some ''./'' \<rparr>"

text \<open>The same project with the backups inside the input directory.\<close>

definition nested_config :: raw_config where
  "nested_config = demo_config\<lparr> raw_output := Some ''public/backup'' \<rparr>"

text \<open>The configuration files of the examples: the project's, the nested one, one that
  names a file to leave alone, one with its own input directory, one without \<open>input\<close>, and
  two with a value that is not accepted. Any other text is no configuration.\<close>

definition demo_parse_config :: "string \<Rightarrow> raw_config option" where
  "demo_parse_config s =
     (if s = ''CONFIG'' then Some demo_config
      else if s = ''CONFIG-NESTED'' then Some nested_config
      else if starts_with ''CONFIG-IGNORE '' s
        then Some (demo_config\<lparr> raw_blacklists := Some [drop 14 s] \<rparr>)
      else if starts_with ''CONFIG-INPUT '' s
        then Some (demo_config\<lparr> raw_input := Some (drop 13 s) \<rparr>)
      else if s = ''CONFIG-NO-INPUT'' then Some (demo_config\<lparr> raw_input := None \<rparr>)
      else if s = ''CONFIG-SIZE-TINY'' then Some (demo_config\<lparr> raw_file_size := Some ''tiny'' \<rparr>)
      else if s = ''CONFIG-TYPE-GIF''
        then Some (demo_config\<lparr> raw_preferred_type := Some ''gif'' \<rparr>)
      else None)"

definition demo_env :: env where
  "demo_env =
     \<lparr> cwd = ''/w'',
       resolve = posix_resolve ''/w'',
       relative = posix_relative ''/w'',
       path_join = posix_join,
       dirname = posix_dirname,
       basename = posix_basename,
       extname = posix_extname,
       glob = posix_glob ''/w'',
       sharp = demo_sharp,
       io_fault = (\<lambda>fs op. False),
       parse_config = demo_parse_config,
       parse_lock = demo_parse_lock,
       print_lock = demo_print_lock,
       prompts = \<lparr> resp_format = None, resp_quality = None, resp_working_directory = None \<rparr> \<rparr>"

definition demo_fs :: filesystem where
  "demo_fs =
     [(''/'', Dir), (''/w'', Dir), (''/w/public'', Dir),
      (''/w/rlcp.config.json'', File ''CONFIG''),
      (''/w/index.html'', File ''<img src=a.png> <img src=public/a.png>''),
      (''/w/public/a.png'', File ''IMG-a'')]"

section \<open>Notions of the properties, and example projects\<close>

text \<open>The claim's words: the old path stands at index \<open>i\<close>; a character of
  \<^verbatim>\<open>[\w\-.]\<close> stands right before \<open>i\<close>; a slash stands right before \<open>i\<close> and such a
  character before the slash.\<close>

definition occurs_at :: "string \<Rightarrow> string \<Rightarrow> nat \<Rightarrow> bool" where
  "occurs_at old s i = (i + length old \<le> length s \<and> take (length old) (drop i s) = old)"

definition after_name_char :: "string \<Rightarrow> nat \<Rightarrow> bool" where
  "after_name_char s i = (0 < i \<and> is_name_char (s ! (i - 1)))"

definition after_slash_name_char :: "string \<Rightarrow> nat \<Rightarrow> bool" where
  "after_slash_name_char s i = (1 < i \<and> s ! (i - 1) = CHR ''/'' \<and> is_name_char (s ! (i - 2)))"

text \<open>After the first run on \<open>demo_fs\<close>, before the references are rewritten: the original
  is in the backup, the WebP file in its place.\<close>

definition converted_fs :: filesystem where
  "converted_fs =
     [(''/'', Dir), (''/w'', Dir), (''/w/public'', Dir),
      (''/w/rlcp.config.json'', File ''CONFIG''),
      (''/w/index.html'', File ''<img src=a.png> <img src=public/a.png>''),
      (''/w/public/a.png'', File ''IMG-a''),
      (''/w/temp_public'', Dir),
      (''/w/temp_public/a.png'', File ''IMG-a''),
      (''/w/public/a.webp'', File ''IMG[webp]-a'')]"

text \<open>Both \<open>a.png\<close> and \<open>a.webp\<close> in the input directory, no lock yet.\<close>

definition both_fs :: filesystem where
  "both_fs = demo_fs @ [(''/w/public/a.webp'', File ''IMG-old-webp'')]"

text \<open>A configuration, but no input directory.\<close>

definition no_input_fs :: filesystem where
  "no_input_fs = [(''/'', Dir), (''/w'', Dir), (''/w/rlcp.config.json'', File ''CONFIG'')]"

text \<open>An empty input directory, a lock from earlier runs and a page that still names the
  old file.\<close>

definition no_images_fs :: filesystem where
  "no_images_fs =
     [(''/'', Dir), (''/w'', Dir), (''/w/public'', Dir),
      (''/w/rlcp.config.json'', File ''CONFIG''),
      (''/w/rlcp.lock'', File (demo_print_lock [(''public/a.png'', ''public/a.webp'')])),
      (''/w/index.html'', File ''<img src=a.png>'')]"

text \<open>A file that is no image; a regular file where the backup directory should be; a
  system that refuses to give the encoded file its final name.\<close>

definition corrupt_fs :: filesystem where
  "corrupt_fs =
     [(''/'', Dir), (''/w'', Dir), (''/w/public'', Dir), (''/w/public/a.png'', File ''garbage'')]"

definition blocked_fs :: filesystem where
  "blocked_fs =
     [(''/'', Dir), (''/w'', Dir), (''/w/public'', Dir), (''/w/public/a.png'', File ''IMG-a''),
      (''/w/temp_public'', File ''not a directory'')]"

definition refusing_env :: env where
  "refusing_env =
     demo_env\<lparr> io_fault := (\<lambda>fs op. op = MoveOp ''/w/public/a.png.temp'' ''/w/public/a.webp'') \<rparr>"

text \<open>A PNG that an earlier run encoded again as PNG, its name with a space in it, a new
  image \<open>b.png\<close>, and a page that names both.\<close>

definition spaced_fs :: filesystem where
  "spaced_fs =
     [(''/'', Dir), (''/w'', Dir), (''/w/public'', Dir),
      (''/w/rlcp.config.json'', File ''CONFIG''),
      (''/w/index.html'', File ''<img src=a b.png> <img src=b.png>''),
      (''/w/public/a b.png'', File ''IMG[png]-ab''),
      (''/w/rlcp.lock'', File (demo_print_lock [(''public/a b.png'', ''public/a b.png'')])),
      (''/w/public/b.png'', File ''IMG-b'')]"

text \<open>A generated file whose own entry names a target that is gone.\<close>

definition stale_fs :: filesystem where
  "stale_fs =
     [(''/'', Dir), (''/w'', Dir), (''/w/public'', Dir),
      (''/w/public/a.webp'', File ''IMG[webp]-a'')]"

definition state_of :: "lock \<Rightarrow> filesystem \<Rightarrow> run_state" where
  "state_of l fs =
     \<lparr> lock = l, replacements = [], files = fs, successCount = 0, failCount = 0, console = [] \<rparr>"

text \<open>The claim's words for the table: the rule relative to the input root, and the rule
  as discovered, relative to the working directory, when the original's path differs from
  its path relative to the input root.\<close>

definition entry_rules :: "env \<Rightarrow> path \<Rightarrow> path \<Rightarrow> path \<Rightarrow> replacement list" where
  "entry_rules E inputDir original target =
     \<lparr> oldRel = relative E inputDir original,
       newRel = relative E (resolve E [cwd E, inputDir]) (resolve E [cwd E, target]) \<rparr>
     # (if original \<noteq> relative E inputDir original
        then [\<lparr> oldRel = original, newRel = relative E (cwd E) (resolve E [cwd E, target]) \<rparr>]
        else [])"

text \<open>The candidates a run on \<open>fs\<close> finds.\<close>

definition discovered :: "env \<Rightarrow> config \<Rightarrow> filesystem \<Rightarrow> path list" where
  "discovered E config fs =
     glob E (path_join E [c_input config, ''**/*.{png,jpg,jpeg,webp}''])
       (case c_blacklists config of None \<Rightarrow> [] | Some b \<Rightarrow> b) (cwd E) False
       (ensureGitIgnore E fs (c_output config))"

text \<open>A project converted by an earlier run, with a new image \<open>b.png\<close> and a page that
  still names \<open>a.png\<close>.\<close>

definition later_fs :: filesystem where
  "later_fs =
     [(''/'', Dir), (''/w'', Dir), (''/w/public'', Dir),
      (''/w/rlcp.config.json'', File ''CONFIG''),
      (''/w/index.html'', File ''<img src=a.png> <img src=b.png>''),
      (''/w/.gitignore'', File (''temp_public'' @ [newline])),
      (''/w/temp_public'', Dir),
      (''/w/temp_public/a.png'', File ''IMG-a''),
      (''/w/public/a.webp'', File ''IMG[webp]-a''),
      (''/w/rlcp.lock'', File (demo_print_lock [(''public/a.png'', ''public/a.webp'')])),
      (''/w/public/b.png'', File ''IMG-b'')]"

text \<open>The loop of that run, and the file system in which it saves the lock.\<close>

definition later_loop :: run_state where
  "later_loop =
     process_files demo_env ''public'' ''temp_public'' WEBP 80 [''public/a.webp'']
       \<lparr> lock = [(''public/a.png'', ''public/a.webp'')], replacements = [],
         files = ensureGitIgnore demo_env later_fs ''temp_public'',
         successCount = 0, failCount = 0, console = [] \<rparr>
       [''public/a.webp'', ''public/b.png'']"

definition later_saved_fs :: filesystem where
  "later_saved_fs =
     [(''/'', Dir), (''/w'', Dir), (''/w/public'', Dir),
      (''/w/rlcp.config.json'', File ''CONFIG''),
      (''/w/index.html'', File ''<img src=a.png> <img src=b.png>''),
      (''/w/.gitignore'', File (''temp_public'' @ [newline])),
      (''/w/temp_public'', Dir),
      (''/w/temp_public/a.png'', File ''IMG-a''),
      (''/w/public/a.webp'', File ''IMG[webp]-a''),
      (''/w/rlcp.lock'',
       File (demo_print_lock [(''public/a.png'', ''public/a.webp''),
                              (''public/b.png'', ''public/b.webp'')])),
      (''/w/temp_public/b.png'', File ''IMG-b''),
      (''/w/public/b.webp'', File ''IMG[webp]-b'')]"

text \<open>A project with an image, whatever its configuration file holds; the project
  without a configuration file; and the project without input directory whose lock file
  has no table of conversions.\<close>

definition project_with :: "string \<Rightarrow> filesystem" where
  "project_with s =
     [(''/'', Dir), (''/w'', Dir), (''/w/public'', Dir),
      (''/w/rlcp.config.json'', File s),
      (''/w/public/a.png'', File ''IMG-a'')]"

definition unconfigured_fs :: filesystem where
  "unconfigured_fs =
     [(''/'', Dir), (''/w'', Dir), (''/w/public'', Dir), (''/w/public/a.png'', File ''IMG-a'')]"

definition no_input_bad_lock_fs :: filesystem where
  "no_input_bad_lock_fs = no_input_fs @ [(''/w/rlcp.lock'', File ''{}'')]"

text \<open>A project whose input directory is to be \<open>.gitignore\<close>, a path that does not exist.\<close>

definition dotted_fs :: filesystem where
  "dotted_fs =
     [(''/'', Dir), (''/w'', Dir), (''/w/rlcp.config.json'', File ''CONFIG-INPUT .gitignore'')]"




















section \<open>Properties of the path pattern\<close>

declare find_matches.simps [simp del]

lemma find_matches_stop: "length s < k \<Longrightarrow> find_matches old s k = []"
  by (subst find_matches.simps) simp

lemma find_matches_hit:
  "\<not> length s < k \<Longrightarrow> matches_at old s k \<Longrightarrow>
     find_matches old s k = k # find_matches old s (if old = [] then k + 1 else k + length old)"
  by (subst find_matches.simps) simp

lemma find_matches_miss:
  "\<not> length s < k \<Longrightarrow> \<not> matches_at old s k \<Longrightarrow>
     find_matches old s k = find_matches old s (k + 1)"
  by (subst find_matches.simps) simp

lemma regex_literal_escapeRegExp: "regex_literal (escapeRegExp s) = Some s"
proof (induction s rule: escapeRegExp.induct)
  case 1
  show ?case by simp
next
  case (2 c cs)
  show ?case
  proof (cases "regex_special c")
    case True
    with 2 show ?thesis by simp
  next
    case False
    with 2 show ?thesis
      by (cases "escapeRegExp cs") (auto simp: regex_special_def split: if_splits)
  qed
qed

lemma starts_with_iff: "starts_with old s \<longleftrightarrow> take (length old) s = old"
  by (induction old s rule: starts_with.induct) auto

lemma find_matches_sound:
  "i \<in> set (find_matches old s k) \<Longrightarrow> k \<le> i \<and> matches_at old s i"
proof (induction old s k rule: find_matches.induct)
  case (1 old s lastIndex)
  show ?case
  proof (cases "length s < lastIndex")
    case True
    with "1.prems" show ?thesis by (simp add: find_matches_stop)
  next
    case False
    note nl = this
    show ?thesis
    proof (cases "matches_at old s lastIndex")
      case True
      with nl "1.prems" have "i = lastIndex \<or> i \<in> set (find_matches old s (if old = [] then lastIndex + 1 else lastIndex + length old))"
        by (simp add: find_matches_hit)
      then show ?thesis
      proof
        assume "i = lastIndex" with True show ?thesis by simp
      next
        assume a: "i \<in> set (find_matches old s (if old = [] then lastIndex + 1 else lastIndex + length old))"
        have "(if old = [] then lastIndex + 1 else lastIndex + length old) \<le> i \<and> matches_at old s i"
          using "1.IH"(1)[OF nl True a] .
        then show ?thesis by (auto split: if_splits)
      qed
    next
      case False
      with nl "1.prems" have a: "i \<in> set (find_matches old s (lastIndex + 1))"
        by (simp add: find_matches_miss)
      have "lastIndex + 1 \<le> i \<and> matches_at old s i" using "1.IH"(2)[OF nl False a] .
      then show ?thesis by simp
    qed
  qed
qed

lemma find_matches_complete:
  "k \<le> i \<Longrightarrow> matches_at old s i \<Longrightarrow>
     i \<in> set (find_matches old s k)
     \<or> (\<exists>j \<in> set (find_matches old s k). j < i \<and> i < j + length old)"
proof (induction old s k rule: find_matches.induct)
  case (1 old s lastIndex)
  from "1.prems"(2) have il: "i \<le> length s" by (simp add: matches_at_def)
  with "1.prems"(1) have nl: "\<not> length s < lastIndex" by simp
  show ?case
  proof (cases "matches_at old s lastIndex")
    case True
    let ?next = "if old = [] then lastIndex + 1 else lastIndex + length old"
    have fm: "find_matches old s lastIndex = lastIndex # find_matches old s ?next"
      using nl True by (simp add: find_matches_hit)
    show ?thesis
    proof (cases "i = lastIndex")
      case True
      then show ?thesis using fm by simp
    next
      case False
      with "1.prems"(1) have lt: "lastIndex < i" by simp
      show ?thesis
      proof (cases "?next \<le> i")
        case True
        from "1.IH"(1)[OF nl \<open>matches_at old s lastIndex\<close> True "1.prems"(2)]
        show ?thesis unfolding fm by auto
      next
        case False
        with lt have "i < lastIndex + length old" by (auto split: if_splits)
        with lt show ?thesis unfolding fm by auto
      qed
    qed
  next
    case False
    with "1.prems" have "i \<noteq> lastIndex" by auto
    with "1.prems"(1) have le: "lastIndex + 1 \<le> i" by simp
    have fm: "find_matches old s lastIndex = find_matches old s (lastIndex + 1)"
      using nl False by (simp add: find_matches_miss)
    from "1.IH"(2)[OF nl False le "1.prems"(2)] show ?thesis unfolding fm .
  qed
qed

lemma find_matches_apart:
  "j \<in> set (find_matches old s k) \<Longrightarrow> i \<in> set (find_matches old s k) \<Longrightarrow> j < i
     \<Longrightarrow> j + length old \<le> i"
proof (induction old s k rule: find_matches.induct)
  case (1 old s lastIndex)
  show ?case
  proof (cases "length s < lastIndex")
    case True
    with "1.prems" show ?thesis by (simp add: find_matches_stop)
  next
    case False
    note nl = this
    show ?thesis
    proof (cases "matches_at old s lastIndex")
      case True
      let ?next = "if old = [] then lastIndex + 1 else lastIndex + length old"
      have fm: "find_matches old s lastIndex = lastIndex # find_matches old s ?next"
        using nl True by (simp add: find_matches_hit)
      have later: "?next \<le> x" if "x \<in> set (find_matches old s ?next)" for x
        using find_matches_sound [OF that] by simp
      from "1.prems"(1) fm have j: "j = lastIndex \<or> j \<in> set (find_matches old s ?next)" by simp
      from "1.prems"(2) fm have i: "i = lastIndex \<or> i \<in> set (find_matches old s ?next)" by simp
      show ?thesis
      proof (cases "j = lastIndex")
        case True
        with "1.prems"(3) i have "i \<in> set (find_matches old s ?next)" by auto
        from later [OF this] True show ?thesis by (auto split: if_splits)
      next
        case False
        with j have j': "j \<in> set (find_matches old s ?next)" by simp
        from later [OF j'] "1.prems"(3) have "i \<noteq> lastIndex" by (auto split: if_splits)
        with i have i': "i \<in> set (find_matches old s ?next)" by simp
        from "1.IH"(1)[OF nl True j' i' "1.prems"(3)] show ?thesis .
      qed
    next
      case False
      have fm: "find_matches old s lastIndex = find_matches old s (lastIndex + 1)"
        using nl False by (simp add: find_matches_miss)
      from "1.IH"(2)[OF nl False] "1.prems" show ?thesis unfolding fm by simp
    qed
  qed
qed

lemma lookbehind_ok_take:
  assumes "i \<le> length s"
  shows "lookbehind_ok (rev (take i s)) \<longleftrightarrow> \<not> after_name_char s i \<and> \<not> after_slash_name_char s i"
proof (cases i)
  case 0
  then show ?thesis by (simp add: after_name_char_def after_slash_name_char_def)
next
  case (Suc n)
  note i = this
  with assms have n: "n < length s" by simp
  show ?thesis
  proof (cases n)
    case 0
    with i n have "take i s = [s ! 0]"
      by (simp add: take_Suc_conv_app_nth)
    with i 0 show ?thesis by (simp add: after_name_char_def after_slash_name_char_def)
  next
    case (Suc m)
    with n have m: "m < length s" by simp
    from i Suc n m have "take i s = take m s @ [s ! m, s ! n]"
      by (simp add: take_Suc_conv_app_nth)
    with i Suc show ?thesis by (auto simp: after_name_char_def after_slash_name_char_def)
  qed
qed

lemma occurs_at_iff: "i \<le> length s \<and> starts_with old (drop i s) \<longleftrightarrow> occurs_at old s i"
proof
  assume a: "i \<le> length s \<and> starts_with old (drop i s)"
  then have t: "take (length old) (drop i s) = old" by (simp add: starts_with_iff)
  then have "length (take (length old) (drop i s)) = length old" by simp
  then have "length old \<le> length s - i" by simp
  with a have "i + length old \<le> length s" by arith
  with t show "occurs_at old s i" by (simp add: occurs_at_def)
next
  assume "occurs_at old s i"
  then show "i \<le> length s \<and> starts_with old (drop i s)"
    by (simp add: occurs_at_def starts_with_iff)
qed

lemma matches_at_iff:
  "matches_at old s i \<longleftrightarrow>
     occurs_at old s i \<and> \<not> after_name_char s i \<and> \<not> after_slash_name_char s i"
proof (cases "i \<le> length s")
  case True
  then show ?thesis
    using occurs_at_iff [of i s old] lookbehind_ok_take [OF True]
    by (auto simp: matches_at_def)
next
  case False
  then show ?thesis by (simp add: matches_at_def occurs_at_def)
qed

lemma replace_all_no_match: "find_matches old s 0 = [] \<Longrightarrow> replace_all old new s = s"
  by (simp add: replace_all_def)

text \<open>
  C7, as amended. The pattern made from the escaped old path matches the old path itself.
  An index of the content is among the replaced matches exactly when the old path
  stands there, no character of \<^verbatim>\<open>[\w\-.]\<close> stands right before it, no slash after such
  a character stands right before it, and it does not lie inside a match replaced before
  it; where nothing qualifies the content is unchanged. For the rule \<open>img.png\<close> to
  \<open>img.webp\<close>: \<open>bigimg.png\<close> and \<open>other-img.png\<close> stay, \<open>img.png\<close> alone is replaced.
\<close>

theorem boundary_safe_rewriting:
  "regex_literal (escapeRegExp old) = Some old
   \<and> (i \<in> set (find_matches old s 0) \<longleftrightarrow>
        occurs_at old s i \<and> \<not> after_name_char s i \<and> \<not> after_slash_name_char s i
        \<and> (\<forall>j \<in> set (find_matches old s 0). \<not> (j < i \<and> i < j + length old)))
   \<and> replace_all old new s = splice old new s 0 (find_matches old s 0)
   \<and> ((\<forall>k. \<not> (occurs_at old s k \<and> \<not> after_name_char s k \<and> \<not> after_slash_name_char s k))
        \<longrightarrow> replace_all old new s = s)
   \<and> replace_all ''img.png'' ''img.webp'' ''bigimg.png'' = ''bigimg.png''
   \<and> replace_all ''img.png'' ''img.webp'' ''other-img.png'' = ''other-img.png''
   \<and> replace_all ''img.png'' ''img.webp'' ''img.png'' = ''img.webp''
   \<and> replace_all ''img.png'' ''img.webp'' ''<img src=img.png> bigimg.png <a href=/img.png>''
       = ''<img src=img.webp> bigimg.png <a href=/img.webp>''"
proof -
  have iff: "i \<in> set (find_matches old s 0) \<longleftrightarrow>
        occurs_at old s i \<and> \<not> after_name_char s i \<and> \<not> after_slash_name_char s i
        \<and> (\<forall>j \<in> set (find_matches old s 0). \<not> (j < i \<and> i < j + length old))"
  proof
    assume a: "i \<in> set (find_matches old s 0)"
    from find_matches_sound [OF a] have "matches_at old s i" by simp
    moreover have "\<not> (j < i \<and> i < j + length old)" if "j \<in> set (find_matches old s 0)" for j
      using find_matches_apart [OF that a] by auto
    ultimately show "occurs_at old s i \<and> \<not> after_name_char s i \<and> \<not> after_slash_name_char s i
        \<and> (\<forall>j \<in> set (find_matches old s 0). \<not> (j < i \<and> i < j + length old))"
      by (simp add: matches_at_iff)
  next
    assume a: "occurs_at old s i \<and> \<not> after_name_char s i \<and> \<not> after_slash_name_char s i
        \<and> (\<forall>j \<in> set (find_matches old s 0). \<not> (j < i \<and> i < j + length old))"
    then have "matches_at old s i" by (simp add: matches_at_iff)
    from find_matches_complete [OF _ this, of 0] a
    show "i \<in> set (find_matches old s 0)" by auto
  qed
  have none: "replace_all old new s = s"
    if "\<forall>k. \<not> (occurs_at old s k \<and> \<not> after_name_char s k \<and> \<not> after_slash_name_char s k)"
  proof -
    have "find_matches old s 0 = []"
    proof (rule ccontr)
      assume "find_matches old s 0 \<noteq> []"
      then obtain k where "k \<in> set (find_matches old s 0)" by (cases "find_matches old s 0") auto
      from find_matches_sound [OF this] that show False by (simp add: matches_at_iff)
    qed
    then show ?thesis by (rule replace_all_no_match)
  qed
  have e1: "replace_all ''img.png'' ''img.webp'' ''bigimg.png'' = ''bigimg.png''"
    by code_simp
  have e2: "replace_all ''img.png'' ''img.webp'' ''other-img.png'' = ''other-img.png''"
    by code_simp
  have e3: "replace_all ''img.png'' ''img.webp'' ''img.png'' = ''img.webp''"
    by code_simp
  have e4: "replace_all ''img.png'' ''img.webp'' ''<img src=img.png> bigimg.png <a href=/img.png>''
       = ''<img src=img.webp> bigimg.png <a href=/img.webp>''"
    by code_simp
  show ?thesis
    using iff none e1 e2 e3 e4 by (simp add: regex_literal_escapeRegExp replace_all_def)
qed

theorem boundary_safe_rewriting_witness:
  "occurs_at ''img.png'' ''bigimg.png img.png'' 11
   \<and> \<not> after_name_char ''bigimg.png img.png'' 11
   \<and> \<not> after_slash_name_char ''bigimg.png img.png'' 11
   \<and> find_matches ''img.png'' ''bigimg.png img.png'' 0 = [11]
   \<and> occurs_at ''img.png'' ''bigimg.png img.png'' 3
   \<and> after_name_char ''bigimg.png img.png'' 3
   \<and> 3 \<notin> set (find_matches ''img.png'' ''bigimg.png img.png'' 0)
   \<and> replace_all ''img.png'' ''img.webp'' ''bigimg.png img.png'' = ''bigimg.png img.webp''"
proof -
  have fm: "find_matches ''img.png'' ''bigimg.png img.png'' 0 = [11]"
    by code_simp
  have q: "occurs_at ''img.png'' ''bigimg.png img.png'' 11
           \<and> \<not> after_name_char ''bigimg.png img.png'' 11
           \<and> \<not> after_slash_name_char ''bigimg.png img.png'' 11"
    by code_simp
  have n: "occurs_at ''img.png'' ''bigimg.png img.png'' 3 \<and> after_name_char ''bigimg.png img.png'' 3"
    by code_simp
  have r: "splice ''img.png'' ''img.webp'' ''bigimg.png img.png'' 0 [11] = ''bigimg.png img.webp''"
    by code_simp
  from boundary_safe_rewriting [of "''img.png''" 3 "''bigimg.png img.png''" "''img.webp''"] n
  have out: "3 \<notin> set (find_matches ''img.png'' ''bigimg.png img.png'' 0)"
    and res: "replace_all ''img.png'' ''img.webp'' ''bigimg.png img.png''
                = splice ''img.png'' ''img.webp'' ''bigimg.png img.png'' 0
                    (find_matches ''img.png'' ''bigimg.png img.png'' 0)"
    by blast+
  show ?thesis
    using fm q n out res r by simp
qed

theorem boundary_safe_rewriting_counterexample:
  "occurs_at ''a.png a.png'' ''a.png a.png a.png'' 6
   \<and> \<not> after_name_char ''a.png a.png a.png'' 6
   \<and> \<not> after_slash_name_char ''a.png a.png a.png'' 6
   \<and> 6 \<notin> set (find_matches ''a.png a.png'' ''a.png a.png a.png'' 0)
   \<and> replace_all ''a.png a.png'' ''b.webp'' ''a.png a.png a.png'' = ''b.webp a.png''"
  by code_simp

section \<open>Properties of the order of the rules\<close>

lemma regex_test_false: "\<not> regex_test old s \<Longrightarrow> replace_all old new s = s"
  by (simp add: regex_test_def replace_all_no_match)

lemma apply_rules_fold:
  "map_option fst (apply_rules rs c b)
     = Some (fold (\<lambda>r c'. replace_all (oldRel r) (newRel r) c') rs c)"
proof (induction rs arbitrary: c b)
  case Nil
  show ?case by simp
next
  case (Cons r rs)
  show ?case
  proof (cases "regex_test (oldRel r) c")
    case True
    then show ?thesis by (simp add: regex_literal_escapeRegExp Cons.IH)
  next
    case False
    then show ?thesis
      by (simp add: regex_literal_escapeRegExp Cons.IH regex_test_false)
  qed
qed

lemma sort_replacements_sorted:
  "sorted (map (\<lambda>r. - int (length (oldRel r))) (sort_replacements rs))"
  by (simp add: sort_replacements_def)

lemma longer_rule_first:
  assumes L: "L \<in> set rs" and S: "S \<in> set rs"
      and len: "length (oldRel S) < length (oldRel L)"
  shows "\<exists>xs ys zs. sort_replacements rs = xs @ L # ys @ S # zs"
proof -
  let ?k = "\<lambda>r. - int (length (oldRel r))"
  from S have "S \<in> set (sort_replacements rs)" by (simp add: sort_replacements_def)
  then obtain as bs where split: "sort_replacements rs = as @ S # bs"
    by (auto simp: in_set_conv_decomp)
  from L have "L \<in> set (sort_replacements rs)" by (simp add: sort_replacements_def)
  with split have "L \<in> set as \<or> L = S \<or> L \<in> set bs" by auto
  moreover from len have "L \<noteq> S" by auto
  moreover have "L \<notin> set bs"
  proof
    assume "L \<in> set bs"
    moreover from sort_replacements_sorted [of rs] split
    have "\<forall>x \<in> set bs. ?k S \<le> ?k x" by (simp add: sorted_append)
    ultimately have "?k S \<le> ?k L" by blast
    with len show False by simp
  qed
  ultimately have "L \<in> set as" by blast
  then obtain xs ys where "as = xs @ L # ys" by (auto simp: in_set_conv_decomp)
  with split show ?thesis by auto
qed

section \<open>Properties of the conversion loop\<close>

lemma map_of_lock_set: "map_of (lock_set k v l) = (map_of l)(k \<mapsto> v)"
  by (induction l) (auto simp: fun_eq_iff)

lemma keys_lock_set: "fst ` set (lock_set k v l) = insert k (fst ` set l)"
  by (induction l) auto

lemma node_at_fs_put: "node_at (fs_put k n fs) x = (if x = k then Some n else node_at fs x)"
  by (induction fs) (auto simp: node_at_def)

text \<open>
  C2, as amended. A candidate \<open>c\<close> with a lock entry \<open>t\<close> that is not the empty string.
  When the target is on disk, the candidate is skipped as already converted: the rule from
  \<open>c\<close> to the target is added, and nothing else changes, the lock least of all. When the
  target is not on disk, the candidate is treated as one that was never converted: it is
  skipped as generated file when it is a value of the loaded lock; else it is skipped with
  \<open>Backup exists\<close>, and its entry set to the final path, when backup and final path are
  both on disk; else it is converted, in three steps, each of which can fail; when all
  three succeed the entry is set to the final path and the conversion counted.
\<close>

theorem locked_candidate:
  assumes "map_of (lock st) c = Some t" and "t \<noteq> []"
  shows "(pathExists E (files st) (resolve E [cwd E, t]) \<longrightarrow>
            process_file E inputDir outputDir targetFormat q lockValues st c =
              st\<lparr> replacements := addReplacement E inputDir (replacements st) c (resolve E [cwd E, t]),
                  console := console st @ [AlreadyConverted c] \<rparr>
            \<and> lock (process_file E inputDir outputDir targetFormat q lockValues st c) = lock st)
       \<and> (\<not> pathExists E (files st) (resolve E [cwd E, t]) \<and> c \<in> set lockValues \<longrightarrow>
            process_file E inputDir outputDir targetFormat q lockValues st c =
              st\<lparr> console := console st @ [GeneratedFile c] \<rparr>)
       \<and> (\<not> pathExists E (files st) (resolve E [cwd E, t]) \<and> c \<notin> set lockValues
            \<and> pathExists E (files st) (originalFileDest E inputDir outputDir c)
            \<and> pathExists E (files st) (finalNewPath E targetFormat c) \<longrightarrow>
            process_file E inputDir outputDir targetFormat q lockValues st c =
              st\<lparr> replacements :=
                    addReplacement E inputDir (replacements st) c (finalNewPath E targetFormat c),
                  lock := lock_set c (relative E (cwd E) (finalNewPath E targetFormat c)) (lock st),
                  console := console st @ [BackupExists c] \<rparr>)
       \<and> (\<not> pathExists E (files st) (resolve E [cwd E, t]) \<and> c \<notin> set lockValues
            \<and> \<not> (pathExists E (files st) (originalFileDest E inputDir outputDir c)
                  \<and> pathExists E (files st) (finalNewPath E targetFormat c))
            \<and> sharp_toFile E targetFormat q (files st) (absoluteFilePath E c)
                  (absoluteFilePath E c @ ''.temp'') = None \<longrightarrow>
            process_file E inputDir outputDir targetFormat q lockValues st c =
              st\<lparr> failCount := failCount st + 1, console := console st @ [Failed c] \<rparr>)
       \<and> (\<not> pathExists E (files st) (resolve E [cwd E, t]) \<and> c \<notin> set lockValues
            \<and> \<not> (pathExists E (files st) (originalFileDest E inputDir outputDir c)
                  \<and> pathExists E (files st) (finalNewPath E targetFormat c))
            \<and> sharp_toFile E targetFormat q (files st) (absoluteFilePath E c)
                  (absoluteFilePath E c @ ''.temp'') = Some fs1
            \<and> move E fs1 (absoluteFilePath E c) (originalFileDest E inputDir outputDir c) = None \<longrightarrow>
            process_file E inputDir outputDir targetFormat q lockValues st c =
              st\<lparr> files := fs1, failCount := failCount st + 1,
                  console := console st @ [Failed c] \<rparr>)
       \<and> (\<not> pathExists E (files st) (resolve E [cwd E, t]) \<and> c \<notin> set lockValues
            \<and> \<not> (pathExists E (files st) (originalFileDest E inputDir outputDir c)
                  \<and> pathExists E (files st) (finalNewPath E targetFormat c))
            \<and> sharp_toFile E targetFormat q (files st) (absoluteFilePath E c)
                  (absoluteFilePath E c @ ''.temp'') = Some fs1
            \<and> move E fs1 (absoluteFilePath E c) (originalFileDest E inputDir outputDir c) = Some fs2
            \<and> move E fs2 (absoluteFilePath E c @ ''.temp'') (finalNewPath E targetFormat c) = None \<longrightarrow>
            process_file E inputDir outputDir targetFormat q lockValues st c =
              st\<lparr> files := fs2, failCount := failCount st + 1,
                  console := console st @ [Failed c] \<rparr>)
       \<and> (\<not> pathExists E (files st) (resolve E [cwd E, t]) \<and> c \<notin> set lockValues
            \<and> \<not> (pathExists E (files st) (originalFileDest E inputDir outputDir c)
                  \<and> pathExists E (files st) (finalNewPath E targetFormat c))
            \<and> sharp_toFile E targetFormat q (files st) (absoluteFilePath E c)
                  (absoluteFilePath E c @ ''.temp'') = Some fs1
            \<and> move E fs1 (absoluteFilePath E c) (originalFileDest E inputDir outputDir c) = Some fs2
            \<and> move E fs2 (absoluteFilePath E c @ ''.temp'') (finalNewPath E targetFormat c) = Some fs3 \<longrightarrow>
            process_file E inputDir outputDir targetFormat q lockValues st c =
              st\<lparr> replacements :=
                    addReplacement E inputDir (replacements st) c (finalNewPath E targetFormat c),
                  lock := lock_set c (relative E (cwd E) (finalNewPath E targetFormat c)) (lock st),
                  files := fs3,
                  successCount := successCount st + 1,
                  console := console st @ [Processed c] \<rparr>)"
proof -
  have there: "pathExists E (files st) (resolve E [cwd E, t]) \<Longrightarrow>
      lockedTarget E st c = Some (resolve E [cwd E, t])"
    using assms by (simp add: lockedTarget_def)
  have gone: "\<not> pathExists E (files st) (resolve E [cwd E, t]) \<Longrightarrow> lockedTarget E st c = None"
    using assms by (simp add: lockedTarget_def)
  show ?thesis
  proof (intro conjI impI; (elim conjE)?)
    assume "pathExists E (files st) (resolve E [cwd E, t])"
    from there [OF this]
    show "process_file E inputDir outputDir targetFormat q lockValues st c =
              st\<lparr> replacements := addReplacement E inputDir (replacements st) c (resolve E [cwd E, t]),
                  console := console st @ [AlreadyConverted c] \<rparr>"
      and "lock (process_file E inputDir outputDir targetFormat q lockValues st c) = lock st"
      by (simp_all add: process_file_def)
  qed (auto simp: gone process_file_def process_unlocked_def convert_file_def failed_def)
qed

theorem locked_candidate_witness:
  "map_of (lock (state_of [(''public/a.png'', ''public/a.webp'')] converted_fs)) ''public/a.png''
     = Some ''public/a.webp''
   \<and> pathExists demo_env converted_fs (resolve demo_env [cwd demo_env, ''public/a.webp''])
   \<and> process_file demo_env ''public'' ''temp_public'' WEBP 80 [''public/a.webp'']
        (state_of [(''public/a.png'', ''public/a.webp'')] converted_fs) ''public/a.png''
       = \<lparr> lock = [(''public/a.png'', ''public/a.webp'')],
           replacements = [\<lparr>oldRel = ''a.png'', newRel = ''a.webp''\<rparr>,
                           \<lparr>oldRel = ''public/a.png'', newRel = ''public/a.webp''\<rparr>],
           files = converted_fs, successCount = 0, failCount = 0,
           console = [AlreadyConverted ''public/a.png''] \<rparr>
   \<and> \<not> pathExists demo_env demo_fs (resolve demo_env [cwd demo_env, ''public/a.webp''])
   \<and> process_file demo_env ''public'' ''temp_public'' WEBP 80 [''public/a.webp'']
        (state_of [(''public/a.png'', ''public/a.webp'')] demo_fs) ''public/a.png''
       = \<lparr> lock = [(''public/a.png'', ''public/a.webp'')],
           replacements = [\<lparr>oldRel = ''a.png'', newRel = ''a.webp''\<rparr>,
                           \<lparr>oldRel = ''public/a.png'', newRel = ''public/a.webp''\<rparr>],
           files =
             [(''/'', Dir), (''/w'', Dir), (''/w/public'', Dir),
              (''/w/rlcp.config.json'', File ''CONFIG''),
              (''/w/index.html'', File ''<img src=a.png> <img src=public/a.png>''),
              (''/w/temp_public'', Dir),
              (''/w/temp_public/a.png'', File ''IMG-a''),
              (''/w/public/a.webp'', File ''IMG[webp]-a'')],
           successCount = 1, failCount = 0,
           console = [Processed ''public/a.png''] \<rparr>
   \<and> \<not> pathExists demo_env stale_fs (resolve demo_env [cwd demo_env, ''public/gone.webp''])
   \<and> process_file demo_env ''public'' ''temp_public'' WEBP 80 [''public/gone.webp'', ''public/a.webp'']
        (state_of [(''public/a.webp'', ''public/gone.webp''), (''public/a.png'', ''public/a.webp'')]
           stale_fs) ''public/a.webp''
       = \<lparr> lock = [(''public/a.webp'', ''public/gone.webp''), (''public/a.png'', ''public/a.webp'')],
           replacements = [], files = stale_fs, successCount = 0, failCount = 0,
           console = [GeneratedFile ''public/a.webp''] \<rparr>"
proof -
  let ?l = "[(''public/a.png'', ''public/a.webp'')]"
  let ?l2 = "[(''public/a.webp'', ''public/gone.webp''), (''public/a.png'', ''public/a.webp'')]"
  let ?fs1 = "demo_fs @ [(''/w/public/a.png.temp'', File ''IMG[webp]-a'')]"
  let ?fs2 = "[(''/'', Dir), (''/w'', Dir), (''/w/public'', Dir),
               (''/w/rlcp.config.json'', File ''CONFIG''),
               (''/w/index.html'', File ''<img src=a.png> <img src=public/a.png>''),
               (''/w/public/a.png.temp'', File ''IMG[webp]-a''),
               (''/w/temp_public'', Dir),
               (''/w/temp_public/a.png'', File ''IMG-a'')]"
  let ?fs3 = "[(''/'', Dir), (''/w'', Dir), (''/w/public'', Dir),
               (''/w/rlcp.config.json'', File ''CONFIG''),
               (''/w/index.html'', File ''<img src=a.png> <img src=public/a.png>''),
               (''/w/temp_public'', Dir),
               (''/w/temp_public/a.png'', File ''IMG-a''),
               (''/w/public/a.webp'', File ''IMG[webp]-a'')]"
  have e: "map_of (lock (state_of ?l fs)) ''public/a.png'' = Some ''public/a.webp''" for fs
    by (simp add: state_of_def)
  have e2: "map_of (lock (state_of ?l2 stale_fs)) ''public/a.webp'' = Some ''public/gone.webp''"
    by (simp add: state_of_def)
  have ne: "''public/a.webp'' \<noteq> []" and ne2: "''public/gone.webp'' \<noteq> []" by simp_all
  have there: "pathExists demo_env converted_fs (resolve demo_env [cwd demo_env, ''public/a.webp''])"
    by code_simp
  have gone: "\<not> pathExists demo_env demo_fs (resolve demo_env [cwd demo_env, ''public/a.webp''])"
    by code_simp
  have gone2: "\<not> pathExists demo_env stale_fs (resolve demo_env [cwd demo_env, ''public/gone.webp''])"
    by code_simp
  have nv: "''public/a.png'' \<notin> set [''public/a.webp'']" by simp
  have v2: "''public/a.webp'' \<in> set [''public/gone.webp'', ''public/a.webp'']" by simp
  have nb: "\<not> (pathExists demo_env demo_fs (originalFileDest demo_env ''public'' ''temp_public'' ''public/a.png'')
               \<and> pathExists demo_env demo_fs (finalNewPath demo_env WEBP ''public/a.png''))"
    by code_simp
  have s1: "sharp_toFile demo_env WEBP 80 demo_fs (absoluteFilePath demo_env ''public/a.png'')
              (absoluteFilePath demo_env ''public/a.png'' @ ''.temp'') = Some ?fs1"
    by code_simp
  have s2: "move demo_env ?fs1 (absoluteFilePath demo_env ''public/a.png'')
              (originalFileDest demo_env ''public'' ''temp_public'' ''public/a.png'') = Some ?fs2"
    by code_simp
  have s3: "move demo_env ?fs2 (absoluteFilePath demo_env ''public/a.png'' @ ''.temp'')
              (finalNewPath demo_env WEBP ''public/a.png'') = Some ?fs3"
    by code_simp
  have rules: "addReplacement demo_env ''public'' [] ''public/a.png''
                 (resolve demo_env [cwd demo_env, ''public/a.webp''])
               = [\<lparr>oldRel = ''a.png'', newRel = ''a.webp''\<rparr>,
                  \<lparr>oldRel = ''public/a.png'', newRel = ''public/a.webp''\<rparr>]"
    by code_simp
  have rules': "addReplacement demo_env ''public'' [] ''public/a.png''
                 (finalNewPath demo_env WEBP ''public/a.png'')
               = [\<lparr>oldRel = ''a.png'', newRel = ''a.webp''\<rparr>,
                  \<lparr>oldRel = ''public/a.png'', newRel = ''public/a.webp''\<rparr>]"
    by code_simp
  have val: "relative demo_env (cwd demo_env) (finalNewPath demo_env WEBP ''public/a.png'')
               = ''public/a.webp''"
    by code_simp
  note inst = locked_candidate [OF e ne, where E = demo_env and inputDir = "''public''"
      and outputDir = "''temp_public''" and targetFormat = WEBP and q = 80
      and lockValues = "[''public/a.webp'']"]
  have there': "pathExists demo_env (files (state_of ?l converted_fs))
                  (resolve demo_env [cwd demo_env, ''public/a.webp''])"
    using there by (simp add: state_of_def)
  from inst [of converted_fs, THEN conjunct1, THEN mp, OF there', THEN conjunct1]
  have skip: "process_file demo_env ''public'' ''temp_public'' WEBP 80 [''public/a.webp'']
                (state_of ?l converted_fs) ''public/a.png''
              = (state_of ?l converted_fs)
                  \<lparr> replacements := addReplacement demo_env ''public''
                        (replacements (state_of ?l converted_fs)) ''public/a.png''
                        (resolve demo_env [cwd demo_env, ''public/a.webp'']),
                    console := console (state_of ?l converted_fs) @ [AlreadyConverted ''public/a.png''] \<rparr>" .
  have pre: "\<not> pathExists demo_env (files (state_of ?l demo_fs)) (resolve demo_env [cwd demo_env, ''public/a.webp''])
             \<and> ''public/a.png'' \<notin> set [''public/a.webp'']
             \<and> \<not> (pathExists demo_env (files (state_of ?l demo_fs))
                      (originalFileDest demo_env ''public'' ''temp_public'' ''public/a.png'')
                   \<and> pathExists demo_env (files (state_of ?l demo_fs))
                      (finalNewPath demo_env WEBP ''public/a.png''))
             \<and> sharp_toFile demo_env WEBP 80 (files (state_of ?l demo_fs))
                  (absoluteFilePath demo_env ''public/a.png'')
                  (absoluteFilePath demo_env ''public/a.png'' @ ''.temp'') = Some ?fs1
             \<and> move demo_env ?fs1 (absoluteFilePath demo_env ''public/a.png'')
                  (originalFileDest demo_env ''public'' ''temp_public'' ''public/a.png'') = Some ?fs2
             \<and> move demo_env ?fs2 (absoluteFilePath demo_env ''public/a.png'' @ ''.temp'')
                  (finalNewPath demo_env WEBP ''public/a.png'') = Some ?fs3"
    unfolding state_of_def run_state.simps using gone nv nb s1 s2 s3 by (intro conjI)
  from inst [of demo_fs ?fs1 ?fs2 ?fs3, THEN conjunct2, THEN conjunct2, THEN conjunct2,
      THEN conjunct2, THEN conjunct2, THEN conjunct2, THEN mp, OF pre]
  have conv: "process_file demo_env ''public'' ''temp_public'' WEBP 80 [''public/a.webp'']
                (state_of ?l demo_fs) ''public/a.png''
              = (state_of ?l demo_fs)
                  \<lparr> replacements := addReplacement demo_env ''public''
                        (replacements (state_of ?l demo_fs)) ''public/a.png''
                        (finalNewPath demo_env WEBP ''public/a.png''),
                    lock := lock_set ''public/a.png''
                        (relative demo_env (cwd demo_env) (finalNewPath demo_env WEBP ''public/a.png''))
                        (lock (state_of ?l demo_fs)),
                    files := ?fs3,
                    successCount := successCount (state_of ?l demo_fs) + 1,
                    console := console (state_of ?l demo_fs) @ [Processed ''public/a.png''] \<rparr>" .
  have pre2: "\<not> pathExists demo_env (files (state_of ?l2 stale_fs))
                  (resolve demo_env [cwd demo_env, ''public/gone.webp''])
              \<and> ''public/a.webp'' \<in> set [''public/gone.webp'', ''public/a.webp'']"
    unfolding state_of_def run_state.simps using gone2 v2 by (intro conjI)
  from locked_candidate [OF e2 ne2, where E = demo_env and inputDir = "''public''"
      and outputDir = "''temp_public''" and targetFormat = WEBP and q = 80
      and lockValues = "[''public/gone.webp'', ''public/a.webp'']",
      THEN conjunct2, THEN conjunct1, THEN mp, OF pre2]
  have gen: "process_file demo_env ''public'' ''temp_public'' WEBP 80
                [''public/gone.webp'', ''public/a.webp''] (state_of ?l2 stale_fs) ''public/a.webp''
              = (state_of ?l2 stale_fs)
                  \<lparr> console := console (state_of ?l2 stale_fs) @ [GeneratedFile ''public/a.webp''] \<rparr>" .
  have a1: "process_file demo_env ''public'' ''temp_public'' WEBP 80 [''public/a.webp'']
        (state_of ?l converted_fs) ''public/a.png''
       = \<lparr> lock = ?l,
           replacements = [\<lparr>oldRel = ''a.png'', newRel = ''a.webp''\<rparr>,
                           \<lparr>oldRel = ''public/a.png'', newRel = ''public/a.webp''\<rparr>],
           files = converted_fs, successCount = 0, failCount = 0,
           console = [AlreadyConverted ''public/a.png''] \<rparr>"
    unfolding skip by (simp add: state_of_def rules)
  have a2: "process_file demo_env ''public'' ''temp_public'' WEBP 80 [''public/a.webp'']
        (state_of ?l demo_fs) ''public/a.png''
       = \<lparr> lock = ?l,
           replacements = [\<lparr>oldRel = ''a.png'', newRel = ''a.webp''\<rparr>,
                           \<lparr>oldRel = ''public/a.png'', newRel = ''public/a.webp''\<rparr>],
           files = ?fs3, successCount = 1, failCount = 0,
           console = [Processed ''public/a.png''] \<rparr>"
    unfolding conv by (simp add: state_of_def rules' val)
  have a3: "process_file demo_env ''public'' ''temp_public'' WEBP 80
                [''public/gone.webp'', ''public/a.webp''] (state_of ?l2 stale_fs) ''public/a.webp''
       = \<lparr> lock = ?l2, replacements = [], files = stale_fs, successCount = 0, failCount = 0,
           console = [GeneratedFile ''public/a.webp''] \<rparr>"
    unfolding gen by (simp add: state_of_def)
  from e [of converted_fs] there a1 gone a2 gone2 a3 show ?thesis by (intro conjI)
qed

theorem locked_candidate_counterexample:
  "map_of (lock (state_of [(''public/a.png'', [])] demo_fs)) ''public/a.png'' = Some []
   \<and> resolve demo_env [cwd demo_env, []] = ''/w''
   \<and> pathExists demo_env demo_fs (resolve demo_env [cwd demo_env, []])
   \<and> process_file demo_env ''public'' ''temp_public'' WEBP 80 [[]]
        (state_of [(''public/a.png'', [])] demo_fs) ''public/a.png''
       = \<lparr> lock = [(''public/a.png'', ''public/a.webp'')],
           replacements = [\<lparr>oldRel = ''a.png'', newRel = ''a.webp''\<rparr>,
                           \<lparr>oldRel = ''public/a.png'', newRel = ''public/a.webp''\<rparr>],
           files =
             [(''/'', Dir), (''/w'', Dir), (''/w/public'', Dir),
              (''/w/rlcp.config.json'', File ''CONFIG''),
              (''/w/index.html'', File ''<img src=a.png> <img src=public/a.png>''),
              (''/w/temp_public'', Dir),
              (''/w/temp_public/a.png'', File ''IMG-a''),
              (''/w/public/a.webp'', File ''IMG[webp]-a'')],
           successCount = 1, failCount = 0,
           console = [Processed ''public/a.png''] \<rparr>"
  by code_simp

text \<open>
  C3. A candidate without a valid lock entry that is no generated file, whose backup
  path and final path are both on disk: it is skipped with \<open>Backup exists\<close>, its rule is
  added, the file system and the counter of conversions stay as they are (nothing is
  encoded), and the lock now maps the candidate to its final path (relative to the
  working directory, as every lock value is).
\<close>

theorem backup_exists_repairs_lock:
  assumes "lockedTarget E st c = None"
      and "c \<notin> set lockValues"
      and "pathExists E (files st) (originalFileDest E inputDir outputDir c)"
      and "pathExists E (files st) (finalNewPath E targetFormat c)"
  shows "process_file E inputDir outputDir targetFormat q lockValues st c =
           st\<lparr> replacements :=
                 addReplacement E inputDir (replacements st) c (finalNewPath E targetFormat c),
               lock := lock_set c (relative E (cwd E) (finalNewPath E targetFormat c)) (lock st),
               console := console st @ [BackupExists c] \<rparr>
         \<and> map_of (lock (process_file E inputDir outputDir targetFormat q lockValues st c)) c
             = Some (relative E (cwd E) (finalNewPath E targetFormat c))
         \<and> files (process_file E inputDir outputDir targetFormat q lockValues st c) = files st
         \<and> successCount (process_file E inputDir outputDir targetFormat q lockValues st c)
             = successCount st"
  using assms by (simp add: process_file_def process_unlocked_def map_of_lock_set)

theorem backup_exists_repairs_lock_witness:
  "lockedTarget demo_env (state_of [] converted_fs) ''public/a.png'' = None
   \<and> pathExists demo_env converted_fs
        (originalFileDest demo_env ''public'' ''temp_public'' ''public/a.png'')
   \<and> pathExists demo_env converted_fs (finalNewPath demo_env WEBP ''public/a.png'')
   \<and> process_file demo_env ''public'' ''temp_public'' WEBP 80 []
        (state_of [] converted_fs) ''public/a.png''
       = \<lparr> lock = [(''public/a.png'', ''public/a.webp'')],
           replacements = [\<lparr>oldRel = ''a.png'', newRel = ''a.webp''\<rparr>,
                           \<lparr>oldRel = ''public/a.png'', newRel = ''public/a.webp''\<rparr>],
           files = converted_fs, successCount = 0, failCount = 0,
           console = [BackupExists ''public/a.png''] \<rparr>"
proof -
  have a: "lockedTarget demo_env (state_of [] converted_fs) ''public/a.png'' = None"
    by (simp add: lockedTarget_def state_of_def)
  have b: "''public/a.png'' \<notin> set []" by simp
  have c: "pathExists demo_env (files (state_of [] converted_fs))
             (originalFileDest demo_env ''public'' ''temp_public'' ''public/a.png'')"
    by code_simp
  have d: "pathExists demo_env (files (state_of [] converted_fs))
             (finalNewPath demo_env WEBP ''public/a.png'')"
    by code_simp
  have r: "relative demo_env (cwd demo_env) (finalNewPath demo_env WEBP ''public/a.png'')
             = ''public/a.webp''"
    by code_simp
  have rules: "addReplacement demo_env ''public'' [] ''public/a.png''
                 (finalNewPath demo_env WEBP ''public/a.png'')
               = [\<lparr>oldRel = ''a.png'', newRel = ''a.webp''\<rparr>,
                  \<lparr>oldRel = ''public/a.png'', newRel = ''public/a.webp''\<rparr>]"
    by code_simp
  from backup_exists_repairs_lock [OF a b c d, of 80]
  have "process_file demo_env ''public'' ''temp_public'' WEBP 80 []
          (state_of [] converted_fs) ''public/a.png''
        = (state_of [] converted_fs)
            \<lparr> replacements := addReplacement demo_env ''public''
                  (replacements (state_of [] converted_fs)) ''public/a.png''
                  (finalNewPath demo_env WEBP ''public/a.png''),
              lock := lock_set ''public/a.png''
                  (relative demo_env (cwd demo_env) (finalNewPath demo_env WEBP ''public/a.png''))
                  (lock (state_of [] converted_fs)),
              console := console (state_of [] converted_fs) @ [BackupExists ''public/a.png''] \<rparr>"
    by blast
  then show ?thesis
    using a c d by (simp add: r) (simp add: state_of_def rules)
qed

section \<open>Runs of the example projects\<close>

lemma run_both:
  "main demo_env both_fs =
     \<lparr> r_outcome = Completed,
       r_files =
         [(''/'', Dir), (''/w'', Dir), (''/w/public'', Dir),
          (''/w/rlcp.config.json'', File ''CONFIG''),
          (''/w/index.html'', File ''<img src=a.webp> <img src=public/a.webp>''),
          (''/w/.gitignore'', File (''temp_public'' @ [newline])),
          (''/w/temp_public'', Dir),
          (''/w/temp_public/a.png'', File ''IMG-a''),
          (''/w/temp_public/a.webp'', File ''IMG[webp]-a''),
          (''/w/public/a.webp'', File ''IMG[webp][webp]-a''),
          (''/w/rlcp.lock'',
           File (demo_print_lock [(''public/a.png'', ''public/a.webp''),
                                  (''public/a.webp'', ''public/a.webp'')]))],
       r_lock = [(''public/a.png'', ''public/a.webp''), (''public/a.webp'', ''public/a.webp'')],
       r_table =
         [\<lparr>oldRel = ''a.png'', newRel = ''a.webp''\<rparr>,
          \<lparr>oldRel = ''public/a.png'', newRel = ''public/a.webp''\<rparr>,
          \<lparr>oldRel = ''a.webp'', newRel = ''a.webp''\<rparr>,
          \<lparr>oldRel = ''public/a.webp'', newRel = ''public/a.webp''\<rparr>],
       r_succeeded = 2, r_failed = 0,
       r_console = [Processed ''public/a.png'', Processed ''public/a.webp''] \<rparr>"
  by code_simp

lemma run_no_input:
  "main demo_env no_input_fs =
     \<lparr> r_outcome = SetupFailed (InputDirMissing ''public''),
       r_files =
         [(''/'', Dir), (''/w'', Dir), (''/w/rlcp.config.json'', File ''CONFIG''),
          (''/w/.gitignore'', File (''temp_public'' @ [newline]))],
       r_lock = [], r_table = [], r_succeeded = 0, r_failed = 0, r_console = [] \<rparr>"
  by code_simp

lemma run_no_images:
  "main demo_env no_images_fs =
     \<lparr> r_outcome = NoImages,
       r_files = no_images_fs @ [(''/w/.gitignore'', File (''temp_public'' @ [newline]))],
       r_lock = [(''public/a.png'', ''public/a.webp'')],
       r_table = [], r_succeeded = 0, r_failed = 0, r_console = [] \<rparr>"
  by code_simp

lemma run_healed:
  "main demo_env converted_fs =
     \<lparr> r_outcome = Completed,
       r_files =
         [(''/'', Dir), (''/w'', Dir), (''/w/public'', Dir),
          (''/w/rlcp.config.json'', File ''CONFIG''),
          (''/w/index.html'', File ''<img src=a.webp> <img src=public/a.webp>''),
          (''/w/public/a.png'', File ''IMG-a''),
          (''/w/temp_public'', Dir),
          (''/w/temp_public/a.png'', File ''IMG-a''),
          (''/w/.gitignore'', File (''temp_public'' @ [newline])),
          (''/w/temp_public/a.webp'', File ''IMG[webp]-a''),
          (''/w/public/a.webp'', File ''IMG[webp][webp]-a''),
          (''/w/rlcp.lock'',
           File (demo_print_lock [(''public/a.png'', ''public/a.webp''),
                                  (''public/a.webp'', ''public/a.webp'')]))],
       r_lock = [(''public/a.png'', ''public/a.webp''), (''public/a.webp'', ''public/a.webp'')],
       r_table =
         [\<lparr>oldRel = ''a.png'', newRel = ''a.webp''\<rparr>,
          \<lparr>oldRel = ''public/a.png'', newRel = ''public/a.webp''\<rparr>,
          \<lparr>oldRel = ''a.webp'', newRel = ''a.webp''\<rparr>,
          \<lparr>oldRel = ''public/a.webp'', newRel = ''public/a.webp''\<rparr>],
       r_succeeded = 1, r_failed = 0,
       r_console = [BackupExists ''public/a.png'', Processed ''public/a.webp''] \<rparr>"
  by code_simp

lemma run_spaced:
  "main demo_env spaced_fs =
     \<lparr> r_outcome = Completed,
       r_files =
         [(''/'', Dir), (''/w'', Dir), (''/w/public'', Dir),
          (''/w/rlcp.config.json'', File ''CONFIG''),
          (''/w/index.html'', File ''<img src=a b.webp> <img src=b.webp>''),
          (''/w/public/a b.png'', File ''IMG[png]-ab''),
          (''/w/rlcp.lock'',
           File (demo_print_lock [(''public/a b.png'', ''public/a b.png''),
                                  (''public/b.png'', ''public/b.webp'')])),
          (''/w/.gitignore'', File (''temp_public'' @ [newline])),
          (''/w/temp_public'', Dir),
          (''/w/temp_public/b.png'', File ''IMG-b''),
          (''/w/public/b.webp'', File ''IMG[webp]-b'')],
       r_lock = [(''public/a b.png'', ''public/a b.png''), (''public/b.png'', ''public/b.webp'')],
       r_table =
         [\<lparr>oldRel = ''a b.png'', newRel = ''a b.png''\<rparr>,
          \<lparr>oldRel = ''public/a b.png'', newRel = ''public/a b.png''\<rparr>,
          \<lparr>oldRel = ''b.png'', newRel = ''b.webp''\<rparr>,
          \<lparr>oldRel = ''public/b.png'', newRel = ''public/b.webp''\<rparr>],
       r_succeeded = 1, r_failed = 0,
       r_console = [AlreadyConverted ''public/a b.png'', Processed ''public/b.png''] \<rparr>"
  by code_simp

text \<open>
  C4. A candidate that is a value of the lock and has no valid entry of its own is a
  generated file and is to be skipped. The run takes the set of values once, before the
  loop (``to easily check if a file is a result of a previous conversion''), and reads the
  entries from the lock as it grows; so a value that the run itself has written is not
  seen. In the project with \<open>a.png\<close> and \<open>a.webp\<close> and no lock, \<open>a.png\<close> is converted to
  \<open>a.webp\<close>; then \<open>a.webp\<close>, now a value of the lock and without a valid entry, is not
  skipped but encoded again. The same happens right after the entry of \<open>a.png\<close> was
  repaired, in the converted project whose lock file is lost.
\<close>

theorem generated_file_is_encoded_again:
  "loadLockFile demo_env both_fs = Some []
   \<and> lock (process_file demo_env ''public'' ''temp_public'' WEBP 80 []
              (state_of [] (ensureGitIgnore demo_env both_fs ''temp_public'')) ''public/a.png'')
       = [(''public/a.png'', ''public/a.webp'')]
   \<and> lockedTarget demo_env
         (process_file demo_env ''public'' ''temp_public'' WEBP 80 []
            (state_of [] (ensureGitIgnore demo_env both_fs ''temp_public'')) ''public/a.png'')
         ''public/a.webp'' = None
   \<and> r_console (main demo_env both_fs) = [Processed ''public/a.png'', Processed ''public/a.webp'']
   \<and> r_succeeded (main demo_env both_fs) = 2
   \<and> node_at (r_files (main demo_env both_fs)) ''/w/temp_public/a.webp''
       = Some (File ''IMG[webp]-a'')
   \<and> node_at (r_files (main demo_env both_fs)) ''/w/public/a.webp''
       = Some (File ''IMG[webp][webp]-a'')
   \<and> loadLockFile demo_env converted_fs = Some []
   \<and> r_console (main demo_env converted_fs)
       = [BackupExists ''public/a.png'', Processed ''public/a.webp'']
   \<and> node_at (r_files (main demo_env converted_fs)) ''/w/public/a.webp''
       = Some (File ''IMG[webp][webp]-a'')"
proof -
  have l0: "loadLockFile demo_env both_fs = Some []"
    by code_simp
  have l: "lock (process_file demo_env ''public'' ''temp_public'' WEBP 80 []
                   (state_of [] (ensureGitIgnore demo_env both_fs ''temp_public''))
                   ''public/a.png'') = [(''public/a.png'', ''public/a.webp'')]"
    by code_simp
  have lt: "lockedTarget demo_env
         (process_file demo_env ''public'' ''temp_public'' WEBP 80 []
            (state_of [] (ensureGitIgnore demo_env both_fs ''temp_public'')) ''public/a.png'')
         ''public/a.webp'' = None"
    by (simp add: lockedTarget_def l)
  have c: "r_console (main demo_env both_fs)
             = [Processed ''public/a.png'', Processed ''public/a.webp'']"
    and s: "r_succeeded (main demo_env both_fs) = 2"
    by (simp_all add: run_both)
  have n1: "node_at (r_files (main demo_env both_fs)) ''/w/temp_public/a.webp''
             = Some (File ''IMG[webp]-a'')"
    and n2: "node_at (r_files (main demo_env both_fs)) ''/w/public/a.webp''
             = Some (File ''IMG[webp][webp]-a'')"
    unfolding run_both by (simp_all add: node_at_def)
  have l0': "loadLockFile demo_env converted_fs = Some []"
    by code_simp
  have c': "r_console (main demo_env converted_fs)
             = [BackupExists ''public/a.png'', Processed ''public/a.webp'']"
    by (simp add: run_healed)
  have n3: "node_at (r_files (main demo_env converted_fs)) ''/w/public/a.webp''
             = Some (File ''IMG[webp][webp]-a'')"
    unfolding run_healed by (simp add: node_at_def)
  from l0 l lt c s n1 n2 l0' c' n3 show ?thesis by (intro conjI)
qed

text \<open>
  C8. The rules are sorted by the length of the old path, longest first (``to avoid
  partial matches''), and applied one after the other, each to the text the rules before
  it left; so a reference that the longer rule has written is open to the shorter rule.
  With the rules \<open>a b.png\<close> to \<open>a b.png\<close> (a PNG encoded again as PNG) and \<open>b.png\<close> to
  \<open>b.webp\<close>, the longer rule stands first, rewrites the reference \<open>a b.png\<close>, and the
  shorter rule then rewrites its tail: the page names \<open>a b.webp\<close>, a file that does not
  exist. So it is in the run of the project that holds both images.
\<close>

theorem longer_rule_does_not_shield:
  "sort_replacements [\<lparr>oldRel = ''b.png'', newRel = ''b.webp''\<rparr>,
                      \<lparr>oldRel = ''a b.png'', newRel = ''a b.png''\<rparr>]
     = [\<lparr>oldRel = ''a b.png'', newRel = ''a b.png''\<rparr>,
        \<lparr>oldRel = ''b.png'', newRel = ''b.webp''\<rparr>]
   \<and> find_matches ''a b.png'' ''<img src=a b.png>'' 0 = [9]
   \<and> replace_all ''a b.png'' ''a b.png'' ''<img src=a b.png>'' = ''<img src=a b.png>''
   \<and> find_matches ''b.png'' (replace_all ''a b.png'' ''a b.png'' ''<img src=a b.png>'') 0 = [11]
   \<and> apply_rules
         (sort_replacements [\<lparr>oldRel = ''b.png'', newRel = ''b.webp''\<rparr>,
                             \<lparr>oldRel = ''a b.png'', newRel = ''a b.png''\<rparr>])
         ''<img src=a b.png>'' False = Some (''<img src=a b.webp>'', True)
   \<and> r_outcome (main demo_env spaced_fs) = Completed
   \<and> r_table (main demo_env spaced_fs)
       = [\<lparr>oldRel = ''a b.png'', newRel = ''a b.png''\<rparr>,
          \<lparr>oldRel = ''public/a b.png'', newRel = ''public/a b.png''\<rparr>,
          \<lparr>oldRel = ''b.png'', newRel = ''b.webp''\<rparr>,
          \<lparr>oldRel = ''public/b.png'', newRel = ''public/b.webp''\<rparr>]
   \<and> node_at spaced_fs ''/w/index.html'' = Some (File ''<img src=a b.png> <img src=b.png>'')
   \<and> node_at (r_files (main demo_env spaced_fs)) ''/w/index.html''
       = Some (File ''<img src=a b.webp> <img src=b.webp>'')
   \<and> node_at (r_files (main demo_env spaced_fs)) ''/w/public/a b.png''
       = Some (File ''IMG[png]-ab'')
   \<and> node_at (r_files (main demo_env spaced_fs)) ''/w/public/a b.webp'' = None"
proof -
  have a: "sort_replacements [\<lparr>oldRel = ''b.png'', newRel = ''b.webp''\<rparr>,
                      \<lparr>oldRel = ''a b.png'', newRel = ''a b.png''\<rparr>]
     = [\<lparr>oldRel = ''a b.png'', newRel = ''a b.png''\<rparr>,
        \<lparr>oldRel = ''b.png'', newRel = ''b.webp''\<rparr>]"
    by (simp add: sort_replacements_def)
  have b: "find_matches ''a b.png'' ''<img src=a b.png>'' 0 = [9]"
    by code_simp
  have c: "replace_all ''a b.png'' ''a b.png'' ''<img src=a b.png>'' = ''<img src=a b.png>''"
    by code_simp
  have d: "find_matches ''b.png'' (replace_all ''a b.png'' ''a b.png'' ''<img src=a b.png>'') 0 = [11]"
    unfolding c by code_simp
  have e: "apply_rules
         (sort_replacements [\<lparr>oldRel = ''b.png'', newRel = ''b.webp''\<rparr>,
                             \<lparr>oldRel = ''a b.png'', newRel = ''a b.png''\<rparr>])
         ''<img src=a b.png>'' False = Some (''<img src=a b.webp>'', True)"
    unfolding a by code_simp
  have f: "r_outcome (main demo_env spaced_fs) = Completed"
    and g: "r_table (main demo_env spaced_fs)
       = [\<lparr>oldRel = ''a b.png'', newRel = ''a b.png''\<rparr>,
          \<lparr>oldRel = ''public/a b.png'', newRel = ''public/a b.png''\<rparr>,
          \<lparr>oldRel = ''b.png'', newRel = ''b.webp''\<rparr>,
          \<lparr>oldRel = ''public/b.png'', newRel = ''public/b.webp''\<rparr>]"
    by (simp_all add: run_spaced)
  have h: "node_at spaced_fs ''/w/index.html'' = Some (File ''<img src=a b.png> <img src=b.png>'')"
    by (simp add: spaced_fs_def node_at_def)
  have i: "node_at (r_files (main demo_env spaced_fs)) ''/w/index.html''
       = Some (File ''<img src=a b.webp> <img src=b.webp>'')"
    and j: "node_at (r_files (main demo_env spaced_fs)) ''/w/public/a b.png''
       = Some (File ''IMG[png]-ab'')"
    and k: "node_at (r_files (main demo_env spaced_fs)) ''/w/public/a b.webp'' = None"
    unfolding run_spaced by (simp_all add: node_at_def)
  from a b c d e f g h i j k show ?thesis by (intro conjI)
qed

text \<open>Every candidate leaves one line on the console, whether it was skipped, converted or
  failed.\<close>

lemma process_file_console:
  "\<exists>e. console (process_file E inputDir outputDir targetFormat q lockValues st c)
        = console st @ [e]"
  by (auto simp: process_file_def process_unlocked_def convert_file_def failed_def
           split: option.splits)

lemma process_files_console:
  "length (console (process_files E inputDir outputDir targetFormat q lockValues st cs))
     = length (console st) + length cs"
proof (induction cs arbitrary: st)
  case Nil
  show ?case by simp
next
  case (Cons c cs)
  obtain e where "console (process_file E inputDir outputDir targetFormat q lockValues st c)
                    = console st @ [e]"
    using process_file_console by blast
  then show ?case by (simp add: Cons.IH)
qed

text \<open>
  C5. A candidate that reaches the conversion (no valid lock entry, no generated file,
  not both backup and target on disk) and for which the encoding, the move to the backup
  or the final rename throws: the candidate is counted as failed and not as converted,
  the lock and the rules are as before, the console has the line \<open>Failed\<close>, and the loop
  goes on with the next candidate, each of which leaves its line.
\<close>

theorem failed_conversion_is_local:
  assumes "lockedTarget E st c = None"
      and "c \<notin> set lockValues"
      and "\<not> (pathExists E (files st) (originalFileDest E inputDir outputDir c)
              \<and> pathExists E (files st) (finalNewPath E targetFormat c))"
      and "sharp_toFile E targetFormat q (files st) (absoluteFilePath E c)
             (absoluteFilePath E c @ ''.temp'') = None
           \<or> (\<exists>fs1. sharp_toFile E targetFormat q (files st) (absoluteFilePath E c)
                       (absoluteFilePath E c @ ''.temp'') = Some fs1
                 \<and> (move E fs1 (absoluteFilePath E c) (originalFileDest E inputDir outputDir c) = None
                    \<or> (\<exists>fs2. move E fs1 (absoluteFilePath E c)
                                (originalFileDest E inputDir outputDir c) = Some fs2
                          \<and> move E fs2 (absoluteFilePath E c @ ''.temp'')
                                (finalNewPath E targetFormat c) = None)))"
  shows "lock (process_file E inputDir outputDir targetFormat q lockValues st c) = lock st
       \<and> replacements (process_file E inputDir outputDir targetFormat q lockValues st c)
           = replacements st
       \<and> failCount (process_file E inputDir outputDir targetFormat q lockValues st c)
           = failCount st + 1
       \<and> successCount (process_file E inputDir outputDir targetFormat q lockValues st c)
           = successCount st
       \<and> console (process_file E inputDir outputDir targetFormat q lockValues st c)
           = console st @ [Failed c]
       \<and> process_files E inputDir outputDir targetFormat q lockValues st (c # rest)
           = process_files E inputDir outputDir targetFormat q lockValues
               (process_file E inputDir outputDir targetFormat q lockValues st c) rest
       \<and> length (console (process_files E inputDir outputDir targetFormat q lockValues st (c # rest)))
           = length (console st) + 1 + length rest"
proof -
  from assms(4) obtain fs' where
    "convert_file E inputDir outputDir targetFormat q st c = failed st fs' c"
    by (auto simp: convert_file_def)
  with assms(1-3) have
    "process_file E inputDir outputDir targetFormat q lockValues st c = failed st fs' c"
    by (auto simp: process_file_def process_unlocked_def)
  then show ?thesis
    using process_files_console [of E inputDir outputDir targetFormat q lockValues st "c # rest"]
    by (simp add: failed_def)
qed

theorem failed_conversion_is_local_witness:
  "sharp_toFile demo_env WEBP 80 corrupt_fs ''/w/public/a.png'' ''/w/public/a.png.temp'' = None
   \<and> process_file demo_env ''public'' ''temp_public'' WEBP 80 []
        (state_of [] corrupt_fs) ''public/a.png''
       = \<lparr> lock = [], replacements = [], files = corrupt_fs, successCount = 0, failCount = 1,
           console = [Failed ''public/a.png''] \<rparr>
   \<and> lock (process_file demo_env ''public'' ''temp_public'' WEBP 80 []
        (state_of [] blocked_fs) ''public/a.png'') = []
   \<and> failCount (process_file demo_env ''public'' ''temp_public'' WEBP 80 []
        (state_of [] blocked_fs) ''public/a.png'') = 1
   \<and> lock (process_file refusing_env ''public'' ''temp_public'' WEBP 80 []
        (state_of [] demo_fs) ''public/a.png'') = []
   \<and> failCount (process_file refusing_env ''public'' ''temp_public'' WEBP 80 []
        (state_of [] demo_fs) ''public/a.png'') = 1"
proof -
  have abs: "absoluteFilePath demo_env ''public/a.png'' = ''/w/public/a.png''"
    by code_simp
  have abs': "absoluteFilePath refusing_env ''public/a.png'' = ''/w/public/a.png''"
    by code_simp
  have l: "lockedTarget E (state_of [] fs) ''public/a.png'' = None" for E fs
    by (simp add: lockedTarget_def state_of_def)
  have v: "''public/a.png'' \<notin> set []" by simp
  have 1: "sharp_toFile demo_env WEBP 80 corrupt_fs ''/w/public/a.png'' ''/w/public/a.png.temp'' = None"
    by code_simp
  have b1: "\<not> (pathExists demo_env (files (state_of [] corrupt_fs))
                 (originalFileDest demo_env ''public'' ''temp_public'' ''public/a.png'')
              \<and> pathExists demo_env (files (state_of [] corrupt_fs))
                 (finalNewPath demo_env WEBP ''public/a.png''))"
    by code_simp
  have step2a: "sharp_toFile demo_env WEBP 80 (files (state_of [] blocked_fs))
                   (absoluteFilePath demo_env ''public/a.png'')
                   (absoluteFilePath demo_env ''public/a.png'' @ ''.temp'')
              = Some (blocked_fs @ [(''/w/public/a.png.temp'', File ''IMG[webp]-a'')])"
    by code_simp
  have step2b: "move demo_env (blocked_fs @ [(''/w/public/a.png.temp'', File ''IMG[webp]-a'')])
                   (absoluteFilePath demo_env ''public/a.png'')
                   (originalFileDest demo_env ''public'' ''temp_public'' ''public/a.png'') = None"
    by code_simp
  from step2a step2b
  have 2: "\<exists>fs1. sharp_toFile demo_env WEBP 80 (files (state_of [] blocked_fs))
                   (absoluteFilePath demo_env ''public/a.png'')
                   (absoluteFilePath demo_env ''public/a.png'' @ ''.temp'') = Some fs1
               \<and> move demo_env fs1 (absoluteFilePath demo_env ''public/a.png'')
                   (originalFileDest demo_env ''public'' ''temp_public'' ''public/a.png'') = None"
    by blast
  have b2: "\<not> (pathExists demo_env (files (state_of [] blocked_fs))
                 (originalFileDest demo_env ''public'' ''temp_public'' ''public/a.png'')
              \<and> pathExists demo_env (files (state_of [] blocked_fs))
                 (finalNewPath demo_env WEBP ''public/a.png''))"
    by code_simp
  have step3a: "sharp_toFile refusing_env WEBP 80 (files (state_of [] demo_fs))
                   (absoluteFilePath refusing_env ''public/a.png'')
                   (absoluteFilePath refusing_env ''public/a.png'' @ ''.temp'')
              = Some (demo_fs @ [(''/w/public/a.png.temp'', File ''IMG[webp]-a'')])"
    by code_simp
  have step3b: "move refusing_env (demo_fs @ [(''/w/public/a.png.temp'', File ''IMG[webp]-a'')])
                   (absoluteFilePath refusing_env ''public/a.png'')
                   (originalFileDest refusing_env ''public'' ''temp_public'' ''public/a.png'')
              = Some [(''/'', Dir), (''/w'', Dir), (''/w/public'', Dir),
                      (''/w/rlcp.config.json'', File ''CONFIG''),
                      (''/w/index.html'', File ''<img src=a.png> <img src=public/a.png>''),
                      (''/w/public/a.png.temp'', File ''IMG[webp]-a''),
                      (''/w/temp_public'', Dir),
                      (''/w/temp_public/a.png'', File ''IMG-a'')]"
    by code_simp
  have step3c: "move refusing_env
                [(''/'', Dir), (''/w'', Dir), (''/w/public'', Dir),
                 (''/w/rlcp.config.json'', File ''CONFIG''),
                 (''/w/index.html'', File ''<img src=a.png> <img src=public/a.png>''),
                 (''/w/public/a.png.temp'', File ''IMG[webp]-a''),
                 (''/w/temp_public'', Dir),
                 (''/w/temp_public/a.png'', File ''IMG-a'')]
                (absoluteFilePath refusing_env ''public/a.png'' @ ''.temp'')
                (finalNewPath refusing_env WEBP ''public/a.png'') = None"
    by code_simp
  from step3a step3b step3c
  have 3: "\<exists>fs1. sharp_toFile refusing_env WEBP 80 (files (state_of [] demo_fs))
                   (absoluteFilePath refusing_env ''public/a.png'')
                   (absoluteFilePath refusing_env ''public/a.png'' @ ''.temp'') = Some fs1
               \<and> (\<exists>fs2. move refusing_env fs1 (absoluteFilePath refusing_env ''public/a.png'')
                     (originalFileDest refusing_env ''public'' ''temp_public'' ''public/a.png'')
                       = Some fs2
                     \<and> move refusing_env fs2 (absoluteFilePath refusing_env ''public/a.png'' @ ''.temp'')
                         (finalNewPath refusing_env WEBP ''public/a.png'') = None)"
    by blast
  have b3: "\<not> (pathExists refusing_env (files (state_of [] demo_fs))
                 (originalFileDest refusing_env ''public'' ''temp_public'' ''public/a.png'')
              \<and> pathExists refusing_env (files (state_of [] demo_fs))
                 (finalNewPath refusing_env WEBP ''public/a.png''))"
    by code_simp
  have f1: "sharp_toFile demo_env WEBP 80 (files (state_of [] corrupt_fs))
              (absoluteFilePath demo_env ''public/a.png'')
              (absoluteFilePath demo_env ''public/a.png'' @ ''.temp'') = None \<or> False"
    using 1 by (simp add: abs state_of_def)
  note r1 = failed_conversion_is_local [OF l v b1, where q = 80 and rest = "[]"]
  note r2 = failed_conversion_is_local [OF l v b2, where q = 80 and rest = "[]"]
  note r3 = failed_conversion_is_local [OF l v b3, where q = 80 and rest = "[]"]
  have c1: "process_file demo_env ''public'' ''temp_public'' WEBP 80 []
              (state_of [] corrupt_fs) ''public/a.png''
            = \<lparr> lock = [], replacements = [], files = corrupt_fs, successCount = 0, failCount = 1,
                console = [Failed ''public/a.png''] \<rparr>"
    by code_simp
  from r2 2 have c2: "lock (process_file demo_env ''public'' ''temp_public'' WEBP 80 []
              (state_of [] blocked_fs) ''public/a.png'') = lock (state_of [] blocked_fs)
            \<and> failCount (process_file demo_env ''public'' ''temp_public'' WEBP 80 []
              (state_of [] blocked_fs) ''public/a.png'') = failCount (state_of [] blocked_fs) + 1"
    by blast
  from r3 3 have c3: "lock (process_file refusing_env ''public'' ''temp_public'' WEBP 80 []
              (state_of [] demo_fs) ''public/a.png'') = lock (state_of [] demo_fs)
            \<and> failCount (process_file refusing_env ''public'' ''temp_public'' WEBP 80 []
              (state_of [] demo_fs) ''public/a.png'') = failCount (state_of [] demo_fs) + 1"
    by blast
  show ?thesis
    using 1 c1 c2 c3 by (simp add: state_of_def)
qed

section \<open>Properties of \<open>main\<close>\<close>

lemma addReplacement_entry_rules:
  "addReplacement E inputDir repl original (resolve E [cwd E, target])
     = repl @ entry_rules E inputDir original target"
  by (simp add: addReplacement_def entry_rules_def Let_def)

lemma fold_entry_rules:
  "fold (\<lambda>(originalRelPath, targetRelPath) repl.
           addReplacement E inputDir repl originalRelPath (resolve E [cwd E, targetRelPath])) l acc
     = acc @ concat (map (\<lambda>(original, target). entry_rules E inputDir original target) l)"
  by (induction l arbitrary: acc) (auto simp: addReplacement_entry_rules)

lemma rebuild_replacements_entry_rules:
  "rebuild_replacements E inputDir l
     = concat (map (\<lambda>(original, target). entry_rules E inputDir original target) l)"
  by (simp add: rebuild_replacements_def fold_entry_rules)

lemma process_file_keys:
  "fst ` set (lock st)
     \<subseteq> fst ` set (lock (process_file E inputDir outputDir targetFormat q lockValues st c))"
  by (auto simp: process_file_def process_unlocked_def convert_file_def failed_def keys_lock_set
           split: option.splits)

lemma process_files_keys:
  "fst ` set (lock st)
     \<subseteq> fst ` set (lock (process_files E inputDir outputDir targetFormat q lockValues st cs))"
proof (induction cs arbitrary: st)
  case Nil
  show ?case by simp
next
  case (Cons c cs)
  have "fst ` set (lock st)
          \<subseteq> fst ` set (lock (process_file E inputDir outputDir targetFormat q lockValues st c))"
    by (rule process_file_keys)
  also have "\<dots> \<subseteq> fst ` set (lock (process_files E inputDir outputDir targetFormat q lockValues
                       (process_file E inputDir outputDir targetFormat q lockValues st c) cs))"
    by (rule Cons.IH)
  finally show ?case by simp
qed

text \<open>The entry of an original that is no candidate of the run is not touched.\<close>

lemma lock_set_other: "(k, v) \<in> set l \<Longrightarrow> k \<noteq> c \<Longrightarrow> (k, v) \<in> set (lock_set c t l)"
  by (induction l) auto

lemma process_file_entry:
  "(k, v) \<in> set (lock st) \<Longrightarrow> k \<noteq> c
     \<Longrightarrow> (k, v) \<in> set (lock (process_file E inputDir outputDir targetFormat q lockValues st c))"
  by (auto simp: process_file_def process_unlocked_def convert_file_def failed_def lock_set_other
           split: option.splits)

lemma process_files_entry:
  "(k, v) \<in> set (lock st) \<Longrightarrow> k \<notin> set cs
     \<Longrightarrow> (k, v) \<in> set (lock (process_files E inputDir outputDir targetFormat q lockValues st cs))"
proof (induction cs arbitrary: st)
  case Nil
  then show ?case by simp
next
  case (Cons c cs)
  from Cons.prems have "k \<noteq> c" and rest: "k \<notin> set cs" by auto
  from process_file_entry [OF Cons.prems(1) this(1)]
  have "(k, v) \<in> set (lock (process_file E inputDir outputDir targetFormat q lockValues st c))" .
  from Cons.IH [OF this rest] show ?case by simp
qed

text \<open>The two ways of \<open>main\<close> once configuration and lock are loaded.\<close>

lemma main_runs_loop:
  assumes "loadConfig E fs = Inr config" and "loadLockFile E fs = Some lock0"
      and "settings E config = Some (f, q, w)"
      and "pathExists E (ensureGitIgnore E fs (c_output config)) (c_input config)"
      and "discovered E config fs \<noteq> []"
  shows "main E fs = convert_and_rewrite E (c_input config) (c_output config) lock0
                       (ensureGitIgnore E fs (c_output config)) (discovered E config fs) f q w"
  using assms by (simp add: main_def Let_def discovered_def)

lemma main_stops:
  assumes "loadConfig E fs = Inr config" and "loadLockFile E fs = Some lock0"
      and "\<not> pathExists E (ensureGitIgnore E fs (c_output config)) (c_input config)
           \<or> discovered E config fs = []"
  shows "r_succeeded (main E fs) = 0 \<and> r_failed (main E fs) = 0 \<and> r_lock (main E fs) = lock0
         \<and> r_console (main E fs) = [] \<and> r_outcome (main E fs) \<noteq> Completed"
  using assms by (auto simp: main_def Let_def discovered_def stopped_def)

text \<open>What the rewriter does to one file, and to one of several.\<close>

lemma apply_rules_unchanged:
  "apply_rules rs c b = Some (c', False) \<Longrightarrow> c' = c \<and> b = False"
proof (induction rs arbitrary: c b)
  case Nil
  then show ?case by simp
next
  case (Cons r rs)
  show ?case
  proof (cases "regex_test (oldRel r) c")
    case True
    with Cons.prems have "apply_rules rs (replace_all (oldRel r) (newRel r) c) True = Some (c', False)"
      by (simp add: regex_literal_escapeRegExp)
    from Cons.IH [OF this] show ?thesis by simp
  next
    case False
    with Cons.prems have "apply_rules rs c b = Some (c', False)"
      by (simp add: regex_literal_escapeRegExp)
    from Cons.IH [OF this] show ?thesis .
  qed
qed

lemma update_file_other:
  "k \<noteq> fs_key E q \<Longrightarrow> node_at (update_file E rules fs q) k = node_at fs k"
  by (auto simp: update_file_def writeFile_def node_at_fs_put split: option.splits if_splits)

lemma update_file_at:
  assumes "node_at fs (fs_key E p) = Some (File content)"
      and "\<forall>fs' op. \<not> io_fault E fs' op"
      and "apply_rules rules content False = Some (content', changed)"
  shows "node_at (update_file E rules fs p) (fs_key E p) = Some (File content')"
proof (cases changed)
  case True
  with assms show ?thesis
    by (simp add: update_file_def readFile_def writeFile_def node_at_fs_put)
next
  case False
  with assms(3) apply_rules_unchanged [of rules content False content'] have "content' = content"
    by simp
  with assms False show ?thesis
    by (simp add: update_file_def readFile_def)
qed

lemma update_files_other:
  "k \<notin> fs_key E ` set ps
     \<Longrightarrow> node_at (fold (\<lambda>filePath fs'. update_file E rules fs' filePath) ps fs) k = node_at fs k"
  by (induction ps arbitrary: fs) (auto simp: update_file_other)

lemma update_files_at:
  assumes "p \<in> set ps" and "distinct (map (fs_key E) ps)"
      and "node_at fs (fs_key E p) = Some (File content)"
      and "\<forall>fs' op. \<not> io_fault E fs' op"
      and "apply_rules rules content False = Some (content', changed)"
  shows "node_at (fold (\<lambda>filePath fs'. update_file E rules fs' filePath) ps fs) (fs_key E p)
           = Some (File content')"
  using assms(1-3)
proof (induction ps arbitrary: fs)
  case Nil
  then show ?case by simp
next
  case (Cons q ps)
  show ?case
  proof (cases "fs_key E q = fs_key E p")
    case True
    with Cons.prems(2) have "fs_key E p \<notin> fs_key E ` set ps" by auto
    from update_files_other [OF this]
    have "node_at (fold (\<lambda>filePath fs'. update_file E rules fs' filePath) ps
                     (update_file E rules fs q)) (fs_key E p)
            = node_at (update_file E rules fs q) (fs_key E p)" .
    also have "\<dots> = node_at (update_file E rules fs q) (fs_key E q)"
      by (simp add: True)
    also from Cons.prems(3) True have "node_at fs (fs_key E q) = Some (File content)" by simp
    from update_file_at [OF this assms(4,5)]
    have "node_at (update_file E rules fs q) (fs_key E q) = Some (File content')" .
    finally show ?thesis by simp
  next
    case False
    with Cons.prems(1) have p: "p \<in> set ps" by auto
    from Cons.prems(2) have d: "distinct (map (fs_key E) ps)" by simp
    from False Cons.prems(3) have "node_at (update_file E rules fs q) (fs_key E p) = Some (File content)"
      by (simp add: update_file_other)
    from Cons.IH [OF p d this] show ?thesis by simp
  qed
qed

text \<open>
  C6. When the run reaches its end, the table it works with is rebuilt from the final
  lock alone, whatever rules the loop had gathered: for each entry, in the order of the
  lock, the rule relative to the input root, and after it the rule relative to the working
  directory exactly when the original's path differs from its path relative to the input
  root. Every original of the lock as it was loaded still has an entry, hence its rules;
  the entry of an original that was no candidate of this run (its file is no longer under
  the input root) is the loaded one. The references are rewritten with this table, over
  the file system in which the lock was saved: a text file that the rewriter finds holds,
  in the end, what the sorted rules of the table make of its content (when the system
  refuses nothing).
\<close>

theorem table_rebuilt_from_lock:
  assumes cfg: "loadConfig E fs = Inr config"
      and lk: "loadLockFile E fs = Some lock0"
      and sett: "settings E config = Some (targetFormat, qualitySetting, workingDir)"
      and compl: "r_outcome (main E fs) = Completed"
      and st: "st = process_files E (c_input config) (c_output config) targetFormat
                      (qualityValue_of qualitySetting) (map snd lock0)
                      \<lparr> lock = lock0, replacements = [],
                        files = ensureGitIgnore E fs (c_output config),
                        successCount = 0, failCount = 0, console = [] \<rparr>
                      (discovered E config fs)"
      and fs2: "fs2 = saveLockFile E (files st) (lock st)"
      and texts: "texts = glob E ''**/*.{html,js,jsx,ts,tsx,css,scss,json,md}''
                            [''**/node_modules/**'', ''.git/**'', ''**/dist/**'', ''**/build/**'']
                            workingDir True fs2"
  shows "r_lock (main E fs) = lock st
       \<and> r_table (main E fs)
           = concat (map (\<lambda>(original, target). entry_rules E (c_input config) original target)
                       (r_lock (main E fs)))
       \<and> (\<forall>original \<in> fst ` set lock0.
             \<exists>target. (original, target) \<in> set (r_lock (main E fs))
               \<and> set (entry_rules E (c_input config) original target)
                    \<subseteq> set (r_table (main E fs)))
       \<and> (\<forall>(original, target) \<in> set lock0.
             original \<notin> set (discovered E config fs) \<longrightarrow>
               (original, target) \<in> set (r_lock (main E fs))
               \<and> set (entry_rules E (c_input config) original target)
                    \<subseteq> set (r_table (main E fs)))
       \<and> r_files (main E fs)
           = (if workingDir \<noteq> [] \<and> r_table (main E fs) \<noteq> [] \<and> pathExists E fs2 workingDir
              then updateReferences E fs2 workingDir (r_table (main E fs))
              else fs2)
       \<and> (workingDir \<noteq> [] \<and> r_table (main E fs) \<noteq> [] \<and> pathExists E fs2 workingDir
          \<and> p \<in> set texts \<and> distinct (map (fs_key E) texts)
          \<and> node_at fs2 (fs_key E p) = Some (File content)
          \<and> (\<forall>fs' op. \<not> io_fault E fs' op)
          \<and> apply_rules (sort_replacements (r_table (main E fs))) content False
               = Some (content', changed)
          \<longrightarrow> node_at (r_files (main E fs)) (fs_key E p) = Some (File content'))"
proof -
  from main_stops [OF cfg lk] compl
  have dir: "pathExists E (ensureGitIgnore E fs (c_output config)) (c_input config)"
    and some: "discovered E config fs \<noteq> []" by blast+
  note m = main_runs_loop [OF cfg lk sett dir some]
  have l: "r_lock (main E fs) = lock st"
    unfolding m st by (simp add: convert_and_rewrite_def Let_def)
  have t: "r_table (main E fs)
             = concat (map (\<lambda>(original, target). entry_rules E (c_input config) original target)
                         (r_lock (main E fs)))"
    unfolding m by (simp add: convert_and_rewrite_def Let_def rebuild_replacements_entry_rules)
  have f: "r_files (main E fs)
             = (if workingDir \<noteq> [] \<and> r_table (main E fs) \<noteq> [] \<and> pathExists E fs2 workingDir
                then updateReferences E fs2 workingDir (r_table (main E fs))
                else fs2)"
    unfolding m fs2 st by (simp add: convert_and_rewrite_def Let_def)
  have rules: "set (entry_rules E (c_input config) original target) \<subseteq> set (r_table (main E fs))"
    if "(original, target) \<in> set (r_lock (main E fs))" for original target
    using that by (subst t) force
  have k: "\<exists>target. (original, target) \<in> set (r_lock (main E fs))
             \<and> set (entry_rules E (c_input config) original target) \<subseteq> set (r_table (main E fs))"
    if "original \<in> fst ` set lock0" for original
  proof -
    from that process_files_keys [of "\<lparr> lock = lock0, replacements = [],
        files = ensureGitIgnore E fs (c_output config), successCount = 0, failCount = 0,
        console = [] \<rparr>" E "c_input config" "c_output config" targetFormat
        "qualityValue_of qualitySetting" "map snd lock0" "discovered E config fs"]
    have "original \<in> fst ` set (r_lock (main E fs))"
      unfolding l st by auto
    then obtain target where e: "(original, target) \<in> set (r_lock (main E fs))"
      by auto
    with rules [OF e] show ?thesis by blast
  qed
  have old: "(original, target) \<in> set (r_lock (main E fs))
             \<and> set (entry_rules E (c_input config) original target) \<subseteq> set (r_table (main E fs))"
    if "(original, target) \<in> set lock0" "original \<notin> set (discovered E config fs)"
    for original target
  proof -
    from that process_files_entry [of original target "\<lparr> lock = lock0, replacements = [],
        files = ensureGitIgnore E fs (c_output config), successCount = 0, failCount = 0,
        console = [] \<rparr>" "discovered E config fs" E "c_input config" "c_output config"
        targetFormat "qualityValue_of qualitySetting" "map snd lock0"]
    have e: "(original, target) \<in> set (r_lock (main E fs))"
      unfolding l st by simp
    with rules [OF e] show ?thesis by blast
  qed
  have w: "node_at (r_files (main E fs)) (fs_key E p) = Some (File content')"
    if c: "workingDir \<noteq> [] \<and> r_table (main E fs) \<noteq> [] \<and> pathExists E fs2 workingDir"
      and p: "p \<in> set texts" and d: "distinct (map (fs_key E) texts)"
      and n: "node_at fs2 (fs_key E p) = Some (File content)"
      and ok: "\<forall>fs' op. \<not> io_fault E fs' op"
      and a: "apply_rules (sort_replacements (r_table (main E fs))) content False
                = Some (content', changed)"
  proof -
    from c f have "r_files (main E fs) = updateReferences E fs2 workingDir (r_table (main E fs))"
      by simp
    then have "r_files (main E fs)
                 = fold (\<lambda>filePath fs'. update_file E (sort_replacements (r_table (main E fs)))
                                          fs' filePath) texts fs2"
      by (simp add: updateReferences_def Let_def texts)
    with update_files_at [OF p d n ok a] show ?thesis by simp
  qed
  from l t k old f w show ?thesis by blast
qed

lemma run_later:
  "main demo_env later_fs =
     \<lparr> r_outcome = Completed,
       r_files =
         [(''/'', Dir), (''/w'', Dir), (''/w/public'', Dir),
          (''/w/rlcp.config.json'', File ''CONFIG''),
          (''/w/index.html'', File ''<img src=a.webp> <img src=b.webp>''),
          (''/w/.gitignore'', File (''temp_public'' @ [newline])),
          (''/w/temp_public'', Dir),
          (''/w/temp_public/a.png'', File ''IMG-a''),
          (''/w/public/a.webp'', File ''IMG[webp]-a''),
          (''/w/rlcp.lock'',
           File (demo_print_lock [(''public/a.png'', ''public/a.webp''),
                                  (''public/b.png'', ''public/b.webp'')])),
          (''/w/temp_public/b.png'', File ''IMG-b''),
          (''/w/public/b.webp'', File ''IMG[webp]-b'')],
       r_lock = [(''public/a.png'', ''public/a.webp''), (''public/b.png'', ''public/b.webp'')],
       r_table =
         [\<lparr>oldRel = ''a.png'', newRel = ''a.webp''\<rparr>,
          \<lparr>oldRel = ''public/a.png'', newRel = ''public/a.webp''\<rparr>,
          \<lparr>oldRel = ''b.png'', newRel = ''b.webp''\<rparr>,
          \<lparr>oldRel = ''public/b.png'', newRel = ''public/b.webp''\<rparr>],
       r_succeeded = 1, r_failed = 0,
       r_console = [GeneratedFile ''public/a.webp'', Processed ''public/b.png''] \<rparr>"
  by code_simp

lemma later_saved: "saveLockFile demo_env (files later_loop) (lock later_loop) = later_saved_fs"
  by code_simp

theorem table_rebuilt_from_lock_witness:
  "r_outcome (main demo_env later_fs) = Completed
   \<and> loadLockFile demo_env later_fs = Some [(''public/a.png'', ''public/a.webp'')]
   \<and> discovered demo_env
         \<lparr> c_input = ''public'', c_output = ''temp_public'', c_blacklists = None,
           c_file_size = Some Small, c_preferred_type = Some WEBP,
           c_working_directory = Some ''./'' \<rparr> later_fs
       = [''public/a.webp'', ''public/b.png'']
   \<and> r_console (main demo_env later_fs)
       = [GeneratedFile ''public/a.webp'', Processed ''public/b.png'']
   \<and> r_table (main demo_env later_fs)
       = entry_rules demo_env ''public'' ''public/a.png'' ''public/a.webp''
         @ entry_rules demo_env ''public'' ''public/b.png'' ''public/b.webp''
   \<and> entry_rules demo_env ''public'' ''public/a.png'' ''public/a.webp''
       = [\<lparr>oldRel = ''a.png'', newRel = ''a.webp''\<rparr>,
          \<lparr>oldRel = ''public/a.png'', newRel = ''public/a.webp''\<rparr>]
   \<and> (''public/a.png'', ''public/a.webp'') \<in> set (r_lock (main demo_env later_fs))
   \<and> set (entry_rules demo_env ''public'' ''public/a.png'' ''public/a.webp'')
       \<subseteq> set (r_table (main demo_env later_fs))
   \<and> node_at later_saved_fs ''/w/index.html'' = Some (File ''<img src=a.png> <img src=b.png>'')
   \<and> apply_rules (sort_replacements (r_table (main demo_env later_fs)))
         ''<img src=a.png> <img src=b.png>'' False
       = Some (''<img src=a.webp> <img src=b.webp>'', True)
   \<and> node_at (r_files (main demo_env later_fs)) ''/w/index.html''
       = Some (File ''<img src=a.webp> <img src=b.webp>'')"
proof -
  let ?cfg = "\<lparr> c_input = ''public'', c_output = ''temp_public'', c_blacklists = None,
               c_file_size = Some Small, c_preferred_type = Some WEBP,
               c_working_directory = Some ''./'' \<rparr>"
  let ?l0 = "[(''public/a.png'', ''public/a.webp'')]"
  let ?page = "''<img src=a.png> <img src=b.png>''"
  let ?page' = "''<img src=a.webp> <img src=b.webp>''"
  have compl: "r_outcome (main demo_env later_fs) = Completed"
    by (simp add: run_later)
  have cfg: "loadConfig demo_env later_fs = Inr ?cfg"
    by code_simp
  have lk: "loadLockFile demo_env later_fs = Some ?l0"
    by code_simp
  have sett: "settings demo_env ?cfg = Some (WEBP, Small, ''./'')"
    by code_simp
  have found: "discovered demo_env ?cfg later_fs = [''public/a.webp'', ''public/b.png'']"
    by code_simp
  have st: "later_loop = process_files demo_env (c_input ?cfg) (c_output ?cfg) WEBP
                      (qualityValue_of Small) (map snd ?l0)
                      \<lparr> lock = ?l0, replacements = [],
                        files = ensureGitIgnore demo_env later_fs (c_output ?cfg),
                        successCount = 0, failCount = 0, console = [] \<rparr>
                      (discovered demo_env ?cfg later_fs)"
    unfolding found by (simp add: later_loop_def qualityValue_of_def)
  have fs2: "later_saved_fs = saveLockFile demo_env (files later_loop) (lock later_loop)"
    by (simp add: later_saved)
  have texts: "[''/w/rlcp.config.json'', ''/w/index.html'']
                 = glob demo_env ''**/*.{html,js,jsx,ts,tsx,css,scss,json,md}''
                     [''**/node_modules/**'', ''.git/**'', ''**/dist/**'', ''**/build/**'']
                     ''./'' True later_saved_fs"
    by code_simp
  have rules: "entry_rules demo_env ''public'' ''public/a.png'' ''public/a.webp''
       = [\<lparr>oldRel = ''a.png'', newRel = ''a.webp''\<rparr>,
          \<lparr>oldRel = ''public/a.png'', newRel = ''public/a.webp''\<rparr>]"
    by code_simp
  have c: "r_console (main demo_env later_fs)
       = [GeneratedFile ''public/a.webp'', Processed ''public/b.png'']"
    by (simp add: run_later)
  have page: "node_at later_saved_fs ''/w/index.html'' = Some (File ?page)"
    by (simp add: later_saved_fs_def node_at_def)
  have key: "fs_key demo_env ''/w/index.html'' = ''/w/index.html''"
    by code_simp
  have ap: "apply_rules (sort_replacements (r_table (main demo_env later_fs))) ?page False
              = Some (?page', True)"
    unfolding run_later by (simp del: apply_rules.simps) code_simp
  note T = table_rebuilt_from_lock [OF cfg lk sett compl st fs2 texts,
      where p = "''/w/index.html''" and content = ?page and content' = ?page' and changed = True]
  from T [THEN conjunct2, THEN conjunct1]
  have "r_table (main demo_env later_fs)
          = concat (map (\<lambda>(original, target). entry_rules demo_env ''public'' original target)
                      (r_lock (main demo_env later_fs)))"
    by simp
  then have t: "r_table (main demo_env later_fs)
       = entry_rules demo_env ''public'' ''public/a.png'' ''public/a.webp''
         @ entry_rules demo_env ''public'' ''public/b.png'' ''public/b.webp''"
    by (simp add: run_later)
  have old: "''public/a.png'' \<notin> set (discovered demo_env ?cfg later_fs)"
    unfolding found by simp
  from T [THEN conjunct2, THEN conjunct2, THEN conjunct2, THEN conjunct1]
  have "case (''public/a.png'', ''public/a.webp'') of
          (original, target) \<Rightarrow>
            original \<notin> set (discovered demo_env ?cfg later_fs) \<longrightarrow>
              (original, target) \<in> set (r_lock (main demo_env later_fs))
              \<and> set (entry_rules demo_env (c_input ?cfg) original target)
                   \<subseteq> set (r_table (main demo_env later_fs))"
    by (rule bspec) simp
  with old have e: "(''public/a.png'', ''public/a.webp'') \<in> set (r_lock (main demo_env later_fs))"
    and r: "set (entry_rules demo_env ''public'' ''public/a.png'' ''public/a.webp'')
              \<subseteq> set (r_table (main demo_env later_fs))"
    by simp_all
  have pre: "''./'' \<noteq> [] \<and> r_table (main demo_env later_fs) \<noteq> []
             \<and> pathExists demo_env later_saved_fs ''./''
             \<and> ''/w/index.html'' \<in> set [''/w/rlcp.config.json'', ''/w/index.html'']
             \<and> distinct (map (fs_key demo_env) [''/w/rlcp.config.json'', ''/w/index.html''])
             \<and> node_at later_saved_fs (fs_key demo_env ''/w/index.html'') = Some (File ?page)
             \<and> (\<forall>fs' op. \<not> io_fault demo_env fs' op)
             \<and> apply_rules (sort_replacements (r_table (main demo_env later_fs))) ?page False
                  = Some (?page', True)"
  proof (intro conjI)
    show "r_table (main demo_env later_fs) \<noteq> []" by (simp add: run_later)
    show "pathExists demo_env later_saved_fs ''./''" by code_simp
    show "distinct (map (fs_key demo_env) [''/w/rlcp.config.json'', ''/w/index.html''])"
      by code_simp
    show "node_at later_saved_fs (fs_key demo_env ''/w/index.html'') = Some (File ?page)"
      unfolding key by (rule page)
    show "\<forall>fs' op. \<not> io_fault demo_env fs' op" by (simp add: demo_env_def)
    show "apply_rules (sort_replacements (r_table (main demo_env later_fs))) ?page False
            = Some (?page', True)" by (rule ap)
  qed simp_all
  from T [THEN conjunct2, THEN conjunct2, THEN conjunct2, THEN conjunct2, THEN conjunct2,
      THEN mp, OF pre]
  have n: "node_at (r_files (main demo_env later_fs)) ''/w/index.html'' = Some (File ?page')"
    unfolding key .
  from compl lk found c t rules e r page ap n show ?thesis by (intro conjI)
qed

lemma ensureGitIgnore_frame:
  "k \<noteq> fs_key E (path_join E [cwd E, ''.gitignore''])
     \<Longrightarrow> node_at (ensureGitIgnore E fs outputDir) k = node_at fs k"
  by (auto simp: ensureGitIgnore_def writeFile_def Let_def node_at_fs_put
           split: option.splits if_splits)

lemma readFile_exists: "readFile E fs p = Some s \<Longrightarrow> pathExists E fs p"
  by (auto simp: readFile_def pathExists_def split: option.splits node.splits)

lemma main_setup_failed:
  "loadConfig E fs = Inl err \<Longrightarrow>
     r_outcome (main E fs) = SetupFailed err \<and> r_files (main E fs) = fs
     \<and> r_console (main E fs) = []"
  by (simp add: main_def stopped_def)

text \<open>
  C9, as amended. When the configuration file is missing, cannot be read or is no
  configuration, when \<open>input\<close> or \<open>output\<close> is missing or empty, or when \<open>file_size\<close> or
  \<open>preferred_type\<close> has a value that is not accepted, the run ends with the setup error,
  nothing is printed for a candidate, and the file system is as it was. With a valid
  configuration and a lock file without its table, the run ends with an unexpected error
  and the file system as it was. With a valid configuration, a lock that loads, and an
  input directory (a path other than \<open>.gitignore\<close>) that is missing, the run ends with that
  setup error before anything is looked for, converted or rewritten and before the lock is
  saved, but after \<open>.gitignore\<close> was brought up to date: every node but that of
  \<open>.gitignore\<close> is as it was.
\<close>

theorem setup_errors_abort_early:
  "(\<not> pathExists E fs (path_join E [cwd E, CONFIG_FILE_NAME]) \<longrightarrow>
      r_outcome (main E fs) = SetupFailed ConfigNotFound
      \<and> r_files (main E fs) = fs \<and> r_console (main E fs) = [])
   \<and> (pathExists E fs (path_join E [cwd E, CONFIG_FILE_NAME])
        \<and> readFile E fs (path_join E [cwd E, CONFIG_FILE_NAME]) = None \<longrightarrow>
      r_outcome (main E fs) = SetupFailed ConfigUnreadable
      \<and> r_files (main E fs) = fs \<and> r_console (main E fs) = [])
   \<and> (readFile E fs (path_join E [cwd E, CONFIG_FILE_NAME]) = Some s
        \<and> parse_config E s = None \<longrightarrow>
      r_outcome (main E fs) = SetupFailed ConfigUnreadable
      \<and> r_files (main E fs) = fs \<and> r_console (main E fs) = [])
   \<and> (readFile E fs (path_join E [cwd E, CONFIG_FILE_NAME]) = Some s
        \<and> parse_config E s = Some c
        \<and> (\<not> truthy (raw_input c) \<or> \<not> truthy (raw_output c)) \<longrightarrow>
      r_outcome (main E fs) = SetupFailed MissingInputOutput
      \<and> r_files (main E fs) = fs \<and> r_console (main E fs) = [])
   \<and> (readFile E fs (path_join E [cwd E, CONFIG_FILE_NAME]) = Some s
        \<and> parse_config E s = Some c
        \<and> truthy (raw_input c) \<and> truthy (raw_output c)
        \<and> raw_file_size c = Some v \<and> v \<noteq> [] \<and> v \<noteq> ''small'' \<and> v \<noteq> ''smallest'' \<longrightarrow>
      r_outcome (main E fs) = SetupFailed (InvalidFileSize v)
      \<and> r_files (main E fs) = fs \<and> r_console (main E fs) = [])
   \<and> (readFile E fs (path_join E [cwd E, CONFIG_FILE_NAME]) = Some s
        \<and> parse_config E s = Some c
        \<and> truthy (raw_input c) \<and> truthy (raw_output c)
        \<and> (raw_file_size c = None \<or> raw_file_size c = Some []
             \<or> raw_file_size c = Some ''small'' \<or> raw_file_size c = Some ''smallest'')
        \<and> raw_preferred_type c = Some v \<and> v \<noteq> []
        \<and> v \<noteq> ''png'' \<and> v \<noteq> ''jpeg'' \<and> v \<noteq> ''jpg'' \<and> v \<noteq> ''webp'' \<longrightarrow>
      r_outcome (main E fs) = SetupFailed (InvalidPreferredType v)
      \<and> r_files (main E fs) = fs \<and> r_console (main E fs) = [])
   \<and> (loadConfig E fs = Inr config \<and> loadLockFile E fs = None \<longrightarrow>
      r_outcome (main E fs) = UnexpectedError
      \<and> r_files (main E fs) = fs \<and> r_console (main E fs) = [])
   \<and> (loadConfig E fs = Inr config \<and> loadLockFile E fs = Some lock0
        \<and> \<not> pathExists E fs (c_input config)
        \<and> fs_key E (c_input config) \<noteq> fs_key E (path_join E [cwd E, ''.gitignore'']) \<longrightarrow>
      r_outcome (main E fs) = SetupFailed (InputDirMissing (c_input config))
      \<and> r_files (main E fs) = ensureGitIgnore E fs (c_output config)
      \<and> r_console (main E fs) = [] \<and> r_succeeded (main E fs) = 0
      \<and> r_table (main E fs) = [] \<and> r_lock (main E fs) = lock0
      \<and> (\<forall>k. k \<noteq> fs_key E (path_join E [cwd E, ''.gitignore''])
             \<longrightarrow> node_at (r_files (main E fs)) k = node_at fs k))"
proof -
  let ?p = "path_join E [cwd E, CONFIG_FILE_NAME]"
  have a: "\<not> pathExists E fs ?p \<longrightarrow>
      r_outcome (main E fs) = SetupFailed ConfigNotFound
      \<and> r_files (main E fs) = fs \<and> r_console (main E fs) = []"
  proof
    assume "\<not> pathExists E fs ?p"
    then have "loadConfig E fs = Inl ConfigNotFound" by (simp add: loadConfig_def)
    then show "r_outcome (main E fs) = SetupFailed ConfigNotFound
      \<and> r_files (main E fs) = fs \<and> r_console (main E fs) = []" by (rule main_setup_failed)
  qed
  have b: "pathExists E fs ?p \<and> readFile E fs ?p = None \<longrightarrow>
      r_outcome (main E fs) = SetupFailed ConfigUnreadable
      \<and> r_files (main E fs) = fs \<and> r_console (main E fs) = []"
  proof
    assume "pathExists E fs ?p \<and> readFile E fs ?p = None"
    then have "loadConfig E fs = Inl ConfigUnreadable" by (simp add: loadConfig_def)
    then show "r_outcome (main E fs) = SetupFailed ConfigUnreadable
      \<and> r_files (main E fs) = fs \<and> r_console (main E fs) = []" by (rule main_setup_failed)
  qed
  have c: "readFile E fs ?p = Some s \<and> parse_config E s = None \<longrightarrow>
      r_outcome (main E fs) = SetupFailed ConfigUnreadable
      \<and> r_files (main E fs) = fs \<and> r_console (main E fs) = []"
  proof
    assume h: "readFile E fs ?p = Some s \<and> parse_config E s = None"
    with readFile_exists [of E fs ?p s] have "loadConfig E fs = Inl ConfigUnreadable"
      by (simp add: loadConfig_def)
    then show "r_outcome (main E fs) = SetupFailed ConfigUnreadable
      \<and> r_files (main E fs) = fs \<and> r_console (main E fs) = []" by (rule main_setup_failed)
  qed
  have v: "loadConfig E fs = validate c"
    if "readFile E fs ?p = Some s" "parse_config E s = Some c" for c
    using that readFile_exists [of E fs ?p s] by (simp add: loadConfig_def)
  have d: "readFile E fs ?p = Some s \<and> parse_config E s = Some c
        \<and> (\<not> truthy (raw_input c) \<or> \<not> truthy (raw_output c)) \<longrightarrow>
      r_outcome (main E fs) = SetupFailed MissingInputOutput
      \<and> r_files (main E fs) = fs \<and> r_console (main E fs) = []"
  proof
    assume h: "readFile E fs ?p = Some s \<and> parse_config E s = Some c
        \<and> (\<not> truthy (raw_input c) \<or> \<not> truthy (raw_output c))"
    then have "validate c = Inl MissingInputOutput"
      by (auto simp: validate_def truthy_def split: option.splits)
    with v h have "loadConfig E fs = Inl MissingInputOutput" by simp
    then show "r_outcome (main E fs) = SetupFailed MissingInputOutput
      \<and> r_files (main E fs) = fs \<and> r_console (main E fs) = []" by (rule main_setup_failed)
  qed
  have e: "readFile E fs ?p = Some s \<and> parse_config E s = Some c
        \<and> truthy (raw_input c) \<and> truthy (raw_output c)
        \<and> raw_file_size c = Some v \<and> v \<noteq> [] \<and> v \<noteq> ''small'' \<and> v \<noteq> ''smallest'' \<longrightarrow>
      r_outcome (main E fs) = SetupFailed (InvalidFileSize v)
      \<and> r_files (main E fs) = fs \<and> r_console (main E fs) = []"
  proof
    assume h: "readFile E fs ?p = Some s \<and> parse_config E s = Some c
        \<and> truthy (raw_input c) \<and> truthy (raw_output c)
        \<and> raw_file_size c = Some v \<and> v \<noteq> [] \<and> v \<noteq> ''small'' \<and> v \<noteq> ''smallest''"
    then have "validate c = Inl (InvalidFileSize v)"
      by (auto simp: validate_def truthy_def read_file_size_def split: option.splits)
    with v h have "loadConfig E fs = Inl (InvalidFileSize v)" by simp
    then show "r_outcome (main E fs) = SetupFailed (InvalidFileSize v)
      \<and> r_files (main E fs) = fs \<and> r_console (main E fs) = []" by (rule main_setup_failed)
  qed
  have f: "readFile E fs ?p = Some s \<and> parse_config E s = Some c
        \<and> truthy (raw_input c) \<and> truthy (raw_output c)
        \<and> (raw_file_size c = None \<or> raw_file_size c = Some []
             \<or> raw_file_size c = Some ''small'' \<or> raw_file_size c = Some ''smallest'')
        \<and> raw_preferred_type c = Some v \<and> v \<noteq> []
        \<and> v \<noteq> ''png'' \<and> v \<noteq> ''jpeg'' \<and> v \<noteq> ''jpg'' \<and> v \<noteq> ''webp'' \<longrightarrow>
      r_outcome (main E fs) = SetupFailed (InvalidPreferredType v)
      \<and> r_files (main E fs) = fs \<and> r_console (main E fs) = []"
  proof
    assume h: "readFile E fs ?p = Some s \<and> parse_config E s = Some c
        \<and> truthy (raw_input c) \<and> truthy (raw_output c)
        \<and> (raw_file_size c = None \<or> raw_file_size c = Some []
             \<or> raw_file_size c = Some ''small'' \<or> raw_file_size c = Some ''smallest'')
        \<and> raw_preferred_type c = Some v \<and> v \<noteq> []
        \<and> v \<noteq> ''png'' \<and> v \<noteq> ''jpeg'' \<and> v \<noteq> ''jpg'' \<and> v \<noteq> ''webp''"
    then have "validate c = Inl (InvalidPreferredType v)"
      by (auto simp: validate_def truthy_def read_file_size_def read_format_def
               split: option.splits)
    with v h have "loadConfig E fs = Inl (InvalidPreferredType v)" by simp
    then show "r_outcome (main E fs) = SetupFailed (InvalidPreferredType v)
      \<and> r_files (main E fs) = fs \<and> r_console (main E fs) = []" by (rule main_setup_failed)
  qed
  have g: "loadConfig E fs = Inr config \<and> loadLockFile E fs = None \<longrightarrow>
      r_outcome (main E fs) = UnexpectedError
      \<and> r_files (main E fs) = fs \<and> r_console (main E fs) = []"
    by (simp add: main_def stopped_def)
  have h: "loadConfig E fs = Inr config \<and> loadLockFile E fs = Some lock0
        \<and> \<not> pathExists E fs (c_input config)
        \<and> fs_key E (c_input config) \<noteq> fs_key E (path_join E [cwd E, ''.gitignore'']) \<longrightarrow>
      r_outcome (main E fs) = SetupFailed (InputDirMissing (c_input config))
      \<and> r_files (main E fs) = ensureGitIgnore E fs (c_output config)
      \<and> r_console (main E fs) = [] \<and> r_succeeded (main E fs) = 0
      \<and> r_table (main E fs) = [] \<and> r_lock (main E fs) = lock0
      \<and> (\<forall>k. k \<noteq> fs_key E (path_join E [cwd E, ''.gitignore''])
             \<longrightarrow> node_at (r_files (main E fs)) k = node_at fs k)"
  proof
    assume h: "loadConfig E fs = Inr config \<and> loadLockFile E fs = Some lock0
        \<and> \<not> pathExists E fs (c_input config)
        \<and> fs_key E (c_input config) \<noteq> fs_key E (path_join E [cwd E, ''.gitignore''])"
    then have "\<not> pathExists E (ensureGitIgnore E fs (c_output config)) (c_input config)"
      by (simp add: pathExists_def ensureGitIgnore_frame)
    with h show "r_outcome (main E fs) = SetupFailed (InputDirMissing (c_input config))
      \<and> r_files (main E fs) = ensureGitIgnore E fs (c_output config)
      \<and> r_console (main E fs) = [] \<and> r_succeeded (main E fs) = 0
      \<and> r_table (main E fs) = [] \<and> r_lock (main E fs) = lock0
      \<and> (\<forall>k. k \<noteq> fs_key E (path_join E [cwd E, ''.gitignore''])
             \<longrightarrow> node_at (r_files (main E fs)) k = node_at fs k)"
      by (simp add: main_def stopped_def Let_def ensureGitIgnore_frame)
  qed
  from a b c d e f g h show ?thesis by (intro conjI)
qed

theorem setup_errors_abort_early_witness:
  "r_outcome (main demo_env unconfigured_fs) = SetupFailed ConfigNotFound
   \<and> r_files (main demo_env unconfigured_fs) = unconfigured_fs
   \<and> r_outcome (main demo_env [(''/'', Dir), (''/w'', Dir), (''/w/rlcp.config.json'', Dir)])
       = SetupFailed ConfigUnreadable
   \<and> r_outcome (main demo_env (project_with ''not a configuration'')) = SetupFailed ConfigUnreadable
   \<and> r_files (main demo_env (project_with ''not a configuration''))
       = project_with ''not a configuration''
   \<and> r_outcome (main demo_env (project_with ''CONFIG-NO-INPUT'')) = SetupFailed MissingInputOutput
   \<and> r_files (main demo_env (project_with ''CONFIG-NO-INPUT'')) = project_with ''CONFIG-NO-INPUT''
   \<and> r_outcome (main demo_env (project_with ''CONFIG-SIZE-TINY''))
       = SetupFailed (InvalidFileSize ''tiny'')
   \<and> r_files (main demo_env (project_with ''CONFIG-SIZE-TINY'')) = project_with ''CONFIG-SIZE-TINY''
   \<and> r_outcome (main demo_env (project_with ''CONFIG-TYPE-GIF''))
       = SetupFailed (InvalidPreferredType ''gif'')
   \<and> r_files (main demo_env (project_with ''CONFIG-TYPE-GIF'')) = project_with ''CONFIG-TYPE-GIF''
   \<and> r_outcome (main demo_env no_input_bad_lock_fs) = UnexpectedError
   \<and> r_files (main demo_env no_input_bad_lock_fs) = no_input_bad_lock_fs
   \<and> \<not> pathExists demo_env no_input_fs ''public''
   \<and> r_outcome (main demo_env no_input_fs) = SetupFailed (InputDirMissing ''public'')
   \<and> node_at (r_files (main demo_env no_input_fs)) ''/w/rlcp.config.json''
       = node_at no_input_fs ''/w/rlcp.config.json''
   \<and> node_at (r_files (main demo_env no_input_fs)) ''/w/rlcp.lock'' = None"
proof -
  let ?cfg = "\<lparr> c_input = ''public'', c_output = ''temp_public'', c_blacklists = None,
               c_file_size = Some Small, c_preferred_type = Some WEBP,
               c_working_directory = Some ''./'' \<rparr>"
  let ?p = "path_join demo_env [cwd demo_env, CONFIG_FILE_NAME]"
  let ?dirfs = "[(''/'', Dir), (''/w'', Dir), (''/w/rlcp.config.json'', Dir)]"
  note T = setup_errors_abort_early [where E = demo_env]
  \<comment> \<open>no configuration file\<close>
  have "\<not> pathExists demo_env unconfigured_fs ?p"
    by code_simp
  from T [where fs = unconfigured_fs, THEN conjunct1, THEN mp, OF this]
  have w1: "r_outcome (main demo_env unconfigured_fs) = SetupFailed ConfigNotFound"
    and w1': "r_files (main demo_env unconfigured_fs) = unconfigured_fs"
    by blast+
  \<comment> \<open>a configuration file that cannot be read\<close>
  have "pathExists demo_env ?dirfs ?p \<and> readFile demo_env ?dirfs ?p = None"
    by code_simp
  from T [where fs = ?dirfs, THEN conjunct2, THEN conjunct1, THEN mp, OF this]
  have w2: "r_outcome (main demo_env ?dirfs) = SetupFailed ConfigUnreadable"
    by blast
  \<comment> \<open>a file that is no configuration\<close>
  have "readFile demo_env (project_with ''not a configuration'') ?p = Some ''not a configuration''
        \<and> parse_config demo_env ''not a configuration'' = None"
    by code_simp
  from T [where fs = "project_with ''not a configuration''", THEN conjunct2, THEN conjunct2, THEN conjunct1, THEN mp, OF this]
  have w3: "r_outcome (main demo_env (project_with ''not a configuration''))
              = SetupFailed ConfigUnreadable"
    and w3': "r_files (main demo_env (project_with ''not a configuration''))
              = project_with ''not a configuration''"
    by blast+
  \<comment> \<open>no input property\<close>
  have "readFile demo_env (project_with ''CONFIG-NO-INPUT'') ?p = Some ''CONFIG-NO-INPUT''
        \<and> parse_config demo_env ''CONFIG-NO-INPUT'' = Some (demo_config\<lparr> raw_input := None \<rparr>)
        \<and> (\<not> truthy (raw_input (demo_config\<lparr> raw_input := None \<rparr>))
             \<or> \<not> truthy (raw_output (demo_config\<lparr> raw_input := None \<rparr>)))"
    by code_simp
  from T [where fs = "project_with ''CONFIG-NO-INPUT''", THEN conjunct2, THEN conjunct2, THEN conjunct2, THEN conjunct1, THEN mp, OF this]
  have w4: "r_outcome (main demo_env (project_with ''CONFIG-NO-INPUT''))
              = SetupFailed MissingInputOutput"
    and w4': "r_files (main demo_env (project_with ''CONFIG-NO-INPUT''))
              = project_with ''CONFIG-NO-INPUT''"
    by blast+
  \<comment> \<open>a file size that is not accepted\<close>
  have "readFile demo_env (project_with ''CONFIG-SIZE-TINY'') ?p = Some ''CONFIG-SIZE-TINY''
        \<and> parse_config demo_env ''CONFIG-SIZE-TINY''
            = Some (demo_config\<lparr> raw_file_size := Some ''tiny'' \<rparr>)
        \<and> truthy (raw_input (demo_config\<lparr> raw_file_size := Some ''tiny'' \<rparr>))
        \<and> truthy (raw_output (demo_config\<lparr> raw_file_size := Some ''tiny'' \<rparr>))
        \<and> raw_file_size (demo_config\<lparr> raw_file_size := Some ''tiny'' \<rparr>) = Some ''tiny''
        \<and> ''tiny'' \<noteq> [] \<and> ''tiny'' \<noteq> ''small'' \<and> ''tiny'' \<noteq> ''smallest''"
    by code_simp
  from T [where fs = "project_with ''CONFIG-SIZE-TINY''", THEN conjunct2, THEN conjunct2, THEN conjunct2, THEN conjunct2, THEN conjunct1, THEN mp, OF this]
  have w5: "r_outcome (main demo_env (project_with ''CONFIG-SIZE-TINY''))
              = SetupFailed (InvalidFileSize ''tiny'')"
    and w5': "r_files (main demo_env (project_with ''CONFIG-SIZE-TINY''))
              = project_with ''CONFIG-SIZE-TINY''"
    by blast+
  \<comment> \<open>a preferred type that is not accepted\<close>
  have "readFile demo_env (project_with ''CONFIG-TYPE-GIF'') ?p = Some ''CONFIG-TYPE-GIF''
        \<and> parse_config demo_env ''CONFIG-TYPE-GIF''
            = Some (demo_config\<lparr> raw_preferred_type := Some ''gif'' \<rparr>)
        \<and> truthy (raw_input (demo_config\<lparr> raw_preferred_type := Some ''gif'' \<rparr>))
        \<and> truthy (raw_output (demo_config\<lparr> raw_preferred_type := Some ''gif'' \<rparr>))
        \<and> (raw_file_size (demo_config\<lparr> raw_preferred_type := Some ''gif'' \<rparr>) = None
             \<or> raw_file_size (demo_config\<lparr> raw_preferred_type := Some ''gif'' \<rparr>) = Some []
             \<or> raw_file_size (demo_config\<lparr> raw_preferred_type := Some ''gif'' \<rparr>) = Some ''small''
             \<or> raw_file_size (demo_config\<lparr> raw_preferred_type := Some ''gif'' \<rparr>)
                 = Some ''smallest'')
        \<and> raw_preferred_type (demo_config\<lparr> raw_preferred_type := Some ''gif'' \<rparr>) = Some ''gif''
        \<and> ''gif'' \<noteq> []
        \<and> ''gif'' \<noteq> ''png'' \<and> ''gif'' \<noteq> ''jpeg'' \<and> ''gif'' \<noteq> ''jpg'' \<and> ''gif'' \<noteq> ''webp''"
    by code_simp
  from T [where fs = "project_with ''CONFIG-TYPE-GIF''", THEN conjunct2, THEN conjunct2, THEN conjunct2, THEN conjunct2, THEN conjunct2, THEN conjunct1, THEN mp, OF this]
  have w6: "r_outcome (main demo_env (project_with ''CONFIG-TYPE-GIF''))
              = SetupFailed (InvalidPreferredType ''gif'')"
    and w6': "r_files (main demo_env (project_with ''CONFIG-TYPE-GIF''))
              = project_with ''CONFIG-TYPE-GIF''"
    by blast+
  \<comment> \<open>a lock file without its table\<close>
  have "loadConfig demo_env no_input_bad_lock_fs = Inr ?cfg
        \<and> loadLockFile demo_env no_input_bad_lock_fs = None"
    by code_simp
  from T [where fs = no_input_bad_lock_fs, THEN conjunct2, THEN conjunct2, THEN conjunct2, THEN conjunct2, THEN conjunct2, THEN conjunct2, THEN conjunct1, THEN mp, OF this]
  have w7: "r_outcome (main demo_env no_input_bad_lock_fs) = UnexpectedError"
    and w7': "r_files (main demo_env no_input_bad_lock_fs) = no_input_bad_lock_fs"
    by blast+
  \<comment> \<open>no input directory\<close>
  have ni: "\<not> pathExists demo_env no_input_fs ''public''"
    by code_simp
  have "loadConfig demo_env no_input_fs = Inr ?cfg
        \<and> loadLockFile demo_env no_input_fs = Some []
        \<and> \<not> pathExists demo_env no_input_fs (c_input ?cfg)
        \<and> fs_key demo_env (c_input ?cfg)
            \<noteq> fs_key demo_env (path_join demo_env [cwd demo_env, ''.gitignore''])"
    by code_simp
  from T [where fs = no_input_fs, THEN conjunct2, THEN conjunct2, THEN conjunct2, THEN conjunct2, THEN conjunct2, THEN conjunct2, THEN conjunct2, THEN mp, OF this]
  have w8: "r_outcome (main demo_env no_input_fs) = SetupFailed (InputDirMissing (c_input ?cfg))"
    and fr: "\<forall>k. k \<noteq> fs_key demo_env (path_join demo_env [cwd demo_env, ''.gitignore''])
                 \<longrightarrow> node_at (r_files (main demo_env no_input_fs)) k = node_at no_input_fs k"
    by blast+
  have k1: "''/w/rlcp.config.json'' \<noteq> fs_key demo_env (path_join demo_env [cwd demo_env, ''.gitignore''])"
    by code_simp
  have k2: "''/w/rlcp.lock'' \<noteq> fs_key demo_env (path_join demo_env [cwd demo_env, ''.gitignore''])"
    by code_simp
  have nl: "node_at no_input_fs ''/w/rlcp.lock'' = None"
    by code_simp
  from fr k1 have n1: "node_at (r_files (main demo_env no_input_fs)) ''/w/rlcp.config.json''
       = node_at no_input_fs ''/w/rlcp.config.json''"
    by blast
  from fr k2 nl have n2: "node_at (r_files (main demo_env no_input_fs)) ''/w/rlcp.lock'' = None"
    by simp
  from w8 have w8': "r_outcome (main demo_env no_input_fs) = SetupFailed (InputDirMissing ''public'')"
    by simp
  from w1 w1' w2 w3 w3' w4 w4' w5 w5' w6 w6' w7 w7' ni w8' n1 n2 show ?thesis
    by (intro conjI)
qed

lemma run_dotted:
  "main demo_env dotted_fs =
     \<lparr> r_outcome = NoImages,
       r_files = dotted_fs @ [(''/w/.gitignore'', File (''temp_public'' @ [newline]))],
       r_lock = [], r_table = [], r_succeeded = 0, r_failed = 0, r_console = [] \<rparr>"
  by code_simp

text \<open>Where a missing input directory does not end the run at once without a change: in
  the project without \<open>public\<close>, \<open>.gitignore\<close> is written before the error; in the project
  whose input directory is to be \<open>.gitignore\<close>, the run itself creates that path, goes on
  and finds no images.\<close>

theorem setup_errors_abort_early_counterexample:
  "\<not> pathExists demo_env no_input_fs ''public''
   \<and> r_outcome (main demo_env no_input_fs) = SetupFailed (InputDirMissing ''public'')
   \<and> node_at no_input_fs ''/w/.gitignore'' = None
   \<and> node_at (r_files (main demo_env no_input_fs)) ''/w/.gitignore''
       = Some (File (''temp_public'' @ [newline]))
   \<and> r_files (main demo_env no_input_fs) \<noteq> no_input_fs
   \<and> loadConfig demo_env dotted_fs
       = Inr \<lparr> c_input = ''.gitignore'', c_output = ''temp_public'', c_blacklists = None,
               c_file_size = Some Small, c_preferred_type = Some WEBP,
               c_working_directory = Some ''./'' \<rparr>
   \<and> \<not> pathExists demo_env dotted_fs ''.gitignore''
   \<and> r_outcome (main demo_env dotted_fs) = NoImages"
proof -
  have a: "\<not> pathExists demo_env no_input_fs ''public''"
    by code_simp
  have b: "node_at no_input_fs ''/w/.gitignore'' = None"
    by code_simp
  have c: "node_at (r_files (main demo_env no_input_fs)) ''/w/.gitignore''
             = Some (File (''temp_public'' @ [newline]))"
    unfolding run_no_input by (simp add: node_at_def)
  from b c have d: "r_files (main demo_env no_input_fs) \<noteq> no_input_fs"
    by auto
  have e: "r_outcome (main demo_env no_input_fs) = SetupFailed (InputDirMissing ''public'')"
    by (simp add: run_no_input)
  have f: "loadConfig demo_env dotted_fs
       = Inr \<lparr> c_input = ''.gitignore'', c_output = ''temp_public'', c_blacklists = None,
               c_file_size = Some Small, c_preferred_type = Some WEBP,
               c_working_directory = Some ''./'' \<rparr>"
    by code_simp
  have g: "\<not> pathExists demo_env dotted_fs ''.gitignore''"
    by code_simp
  have h: "r_outcome (main demo_env dotted_fs) = NoImages"
    by (simp add: run_dotted)
  from a e b c d f g h show ?thesis by (intro conjI)
qed

text \<open>
  C10. When the search for images finds none, the run ends there: the run's table is
  empty (it is never rebuilt from the lock, whatever the lock holds), the file system is
  the one \<open>ensureGitIgnore\<close> left, so that every node but that of \<open>.gitignore\<close> is as it
  was, the lock file and every text file among them.
\<close>

theorem no_images_returns_early:
  assumes "loadConfig E fs = Inr config"
      and "loadLockFile E fs = Some lock0"
      and "pathExists E (ensureGitIgnore E fs (c_output config)) (c_input config)"
      and "glob E (path_join E [c_input config, ''**/*.{png,jpg,jpeg,webp}''])
             (case c_blacklists config of None \<Rightarrow> [] | Some b \<Rightarrow> b) (cwd E) False
             (ensureGitIgnore E fs (c_output config)) = []"
  shows "r_outcome (main E fs) = NoImages
       \<and> r_table (main E fs) = []
       \<and> r_lock (main E fs) = lock0
       \<and> r_files (main E fs) = ensureGitIgnore E fs (c_output config)
       \<and> (\<forall>k. k \<noteq> fs_key E (path_join E [cwd E, ''.gitignore''])
              \<longrightarrow> node_at (r_files (main E fs)) k = node_at fs k)"
  using assms by (simp add: main_def stopped_def Let_def ensureGitIgnore_frame)

theorem no_images_returns_early_witness:
  "loadLockFile demo_env no_images_fs = Some [(''public/a.png'', ''public/a.webp'')]
   \<and> r_outcome (main demo_env no_images_fs) = NoImages
   \<and> r_table (main demo_env no_images_fs) = []
   \<and> node_at (r_files (main demo_env no_images_fs)) ''/w/rlcp.lock''
       = node_at no_images_fs ''/w/rlcp.lock''
   \<and> node_at (r_files (main demo_env no_images_fs)) ''/w/index.html''
       = Some (File ''<img src=a.png>'')"
proof -
  let ?cfg = "\<lparr> c_input = ''public'', c_output = ''temp_public'', c_blacklists = None,
               c_file_size = Some Small, c_preferred_type = Some WEBP,
               c_working_directory = Some ''./'' \<rparr>"
  have cfg: "loadConfig demo_env no_images_fs = Inr ?cfg"
    by code_simp
  have lk: "loadLockFile demo_env no_images_fs = Some [(''public/a.png'', ''public/a.webp'')]"
    by code_simp
  have dir: "pathExists demo_env (ensureGitIgnore demo_env no_images_fs (c_output ?cfg)) (c_input ?cfg)"
    by code_simp
  have none: "glob demo_env (path_join demo_env [c_input ?cfg, ''**/*.{png,jpg,jpeg,webp}''])
             (case c_blacklists ?cfg of None \<Rightarrow> [] | Some b \<Rightarrow> b) (cwd demo_env) False
             (ensureGitIgnore demo_env no_images_fs (c_output ?cfg)) = []"
    by code_simp
  have k1: "''/w/rlcp.lock'' \<noteq> fs_key demo_env (path_join demo_env [cwd demo_env, ''.gitignore''])"
    by code_simp
  have k2: "''/w/index.html'' \<noteq> fs_key demo_env (path_join demo_env [cwd demo_env, ''.gitignore''])"
    by code_simp
  have ix: "node_at no_images_fs ''/w/index.html'' = Some (File ''<img src=a.png>'')"
    by code_simp
  note t = no_images_returns_early [OF cfg lk dir none]
  from t have o: "r_outcome (main demo_env no_images_fs) = NoImages"
    and tb: "r_table (main demo_env no_images_fs) = []"
    and fr: "\<forall>k. k \<noteq> fs_key demo_env (path_join demo_env [cwd demo_env, ''.gitignore''])
              \<longrightarrow> node_at (r_files (main demo_env no_images_fs)) k = node_at no_images_fs k"
    by blast+
  from fr k1 have l: "node_at (r_files (main demo_env no_images_fs)) ''/w/rlcp.lock''
                        = node_at no_images_fs ''/w/rlcp.lock''"
    by blast
  from fr k2 ix have i: "node_at (r_files (main demo_env no_images_fs)) ''/w/index.html''
                        = Some (File ''<img src=a.png>'')"
    by simp
  from lk o tb l i show ?thesis by (intro conjI)
qed

section \<open>What the file operations keep\<close>
















section \<open>Two runs in a row\<close>



lemma map_of_lock_set_other: "x \<noteq> k \<Longrightarrow> map_of (lock_set k v l) x = map_of l x"
  by (simp add: map_of_lock_set)

































end
